theory Spec2Isabelle
  imports Complex_Main
begin

section \<open>Data model\<close>

text \<open>
  The ledger and reward-settlement core of the backend: the Transaction and User models
  (\<open>models/Transaction.js\<close>, \<open>models/User.js\<close>), the Game model (\<open>models/Game.js\<close>),
  the payment service (\<open>services/paymentService.js\<close>), the claim of the game service
  (\<open>GameService.claimRewards\<close>) and the withdrawal route (\<open>routes/payment.js\<close>).
  JavaScript numbers are modelled as exact rationals, dates as integer milliseconds, a
  collection as the list of its documents in insertion order, and a document's \<open>_id\<close>
  as its position in that list. A \<open>save()\<close> validates the document, runs the model's
  \<open>pre('save')\<close> hook and stores the document. Of the validation, the required transaction
  id is modelled, since it decides whether a new transaction can be stored at all; the
  other validators (ranges, lengths) and failures of the database are not.
\<close>

type_synonym user_id = nat
type_synonym millis = int

datatype tx_type =
  GameReward | Withdrawal | Deposit | Bonus | Referral | Penalty | Refund | Fee | Purchase

datatype tx_status = Pending | Processing | Completed | Failed | Cancelled | Expired

datatype currency = BIGCOIN | USD | VND | SGD

datatype gateway = Stripe | Epcm | Manual

datatype kyc_level = KycBasic | KycEnhanced | KycFull

datatype pay_method = BankTransfer | Crypto | Paypal | OtherMethod string

text \<open>\<open>metadata.fees\<close> of a transaction; every component defaults to 0.\<close>

record fee_breakdown =
  fee_platform :: rat
  fee_payment :: rat
  fee_withdrawal :: rat
  fee_total :: rat

text \<open>
  An entry of \<open>audit.statusHistory\<close>. \<open>h_from\<close> is a free string in the schema; the
  save hook writes the literal \<open>'unknown'\<close> there, which is \<open>None\<close> here.
\<close>

record history_entry =
  h_from :: "tx_status option"
  h_to :: tx_status
  h_timestamp :: millis
  h_reason :: string
  h_changedBy :: "user_id option"

record log_entry =
  l_timestamp :: millis
  l_action :: string
  l_status :: string
  l_message :: string

text \<open>
  A Transaction document. \<open>isNew\<close> and \<open>status_modified\<close> are Mongoose's change
  tracking (\<open>this.isNew\<close>, \<open>this.isModified('status')\<close>); free-text fields that no
  operation reads back (description, gateway payloads, bank account details) are left out.
  Schema defaults are those of \<open>new_transaction\<close> below.
\<close>

record transaction =
  t_userId :: user_id
  transactionId :: string
  t_gameId :: "nat option"
  t_type :: tx_type
  amount :: rat
  t_currency :: currency
  status :: tx_status
  fees :: fee_breakdown
  paymentMethod :: "pay_method option"
  walletAddress :: "string option"
  t_gateway :: "gateway option"
  gatewayTransactionId :: "string option"
  retryCount :: int
  maxRetries :: int
  nextRetry :: "millis option"
  v_required :: bool
  v_kycLevel :: kyc_level
  v_verified :: bool
  riskScore :: rat
  flagged :: bool
  flagReason :: "string option"
  logs :: "log_entry list"
  statusHistory :: "history_entry list"
  t_createdAt :: millis
  isNew :: bool
  status_modified :: bool

section \<open>Currency ledger: the balance\<close>

text \<open>
  \<open>Transaction.getUserBalance\<close>: the aggregation pipeline keeps the user's completed
  transactions (\<open>$match\<close>) and sums \<open>amount\<close> per type (\<open>$group\<close>); the loop then adds
  the credit groups and subtracts the debit groups, and the result is clamped at 0.
\<close>

definition match_completed :: "user_id \<Rightarrow> transaction list \<Rightarrow> transaction list" where
  "match_completed uid txs = filter (\<lambda>t. t_userId t = uid \<and> status t = Completed) txs"

fun add_to_group :: "tx_type \<Rightarrow> rat \<Rightarrow> (tx_type \<times> rat) list \<Rightarrow> (tx_type \<times> rat) list" where
  "add_to_group k v [] = [(k, v)]"
| "add_to_group k v ((k', s) # gs) =
     (if k = k' then (k', s + v) # gs else (k', s) # add_to_group k v gs)"

definition group_by_type :: "transaction list \<Rightarrow> (tx_type \<times> rat) list" where
  "group_by_type txs = foldl (\<lambda>gs t. add_to_group (t_type t) (amount t) gs) [] txs"

definition credit_types :: "tx_type list" where
  "credit_types = [GameReward, Deposit, Bonus, Referral, Refund]"

definition debit_types :: "tx_type list" where
  "debit_types = [Withdrawal, Penalty, Fee, Purchase]"

definition balance_step :: "rat \<Rightarrow> tx_type \<times> rat \<Rightarrow> rat" where
  "balance_step balance item =
     (if fst item \<in> set credit_types then balance + snd item
      else if fst item \<in> set debit_types then balance - snd item
      else balance)"

definition getUserBalance :: "user_id \<Rightarrow> transaction list \<Rightarrow> rat" where
  "getUserBalance uid txs =
     max 0 (foldl balance_step 0 (group_by_type (match_completed uid txs)))"

text \<open>The sums the specification speaks of, written directly over the ledger.\<close>

definition completed_credits :: "user_id \<Rightarrow> transaction list \<Rightarrow> rat" where
  "completed_credits uid txs =
     sum_list (map amount (filter (\<lambda>t. t_userId t = uid \<and> status t = Completed
                                        \<and> t_type t \<in> set credit_types) txs))"

definition completed_debits :: "user_id \<Rightarrow> transaction list \<Rightarrow> rat" where
  "completed_debits uid txs =
     sum_list (map amount (filter (\<lambda>t. t_userId t = uid \<and> status t = Completed
                                        \<and> t_type t \<in> set debit_types) txs))"


section \<open>Environment\<close>

text \<open>
  What an operation reads from outside the store: the clock (one reading per operation),
  the random sources, and the configuration variables as \<open>parseFloat\<close> returns them
  (\<open>None\<close> for an unset or non-numeric variable).
\<close>

record env =
  now :: millis
  random_hex :: string
  random_uuid :: string
  WITHDRAWAL_FEE :: "rat option"
  COIN_PER_POINT :: "rat option"
  MIN_WITHDRAWAL :: "rat option"

text \<open>\<open>parseFloat(process.env.X) || d\<close>: a missing, non-numeric or zero value gives \<open>d\<close>.\<close>

definition env_or :: "rat option \<Rightarrow> rat \<Rightarrow> rat" where
  "env_or v d = (case v of None \<Rightarrow> d | Some r \<Rightarrow> if r = 0 then d else r)"

definition withdrawalFeeRate :: "env \<Rightarrow> rat" where
  "withdrawalFeeRate e = env_or (WITHDRAWAL_FEE e) (5 / 100)"

definition coinPerPoint :: "env \<Rightarrow> rat" where
  "coinPerPoint e = env_or (COIN_PER_POINT e) (1 / 1000)"

definition minWithdrawal :: "env \<Rightarrow> rat" where
  "minWithdrawal e = env_or (MIN_WITHDRAWAL e) 10"

section \<open>Errors\<close>

text \<open>
  The exceptions of the services, by their inner message. \<open>ValidationError\<close> is the
  rejection of a \<open>save()\<close> by the schema validation; \<open>NullUser\<close> is the TypeError of a
  method call on a user that was not found.
\<close>

datatype error =
    UserNotFound
  | WithdrawalNotAllowed
  | InsufficientBalance
  | InsufficientCoins
  | UnsupportedWithdrawalMethod
  | GatewayError string
  | SessionNotFoundOrNotCompleted
  | RewardsAlreadyClaimed
  | NullUser
  | ValidationError

section \<open>Transaction model\<close>

definition zero_fees :: fee_breakdown where
  "zero_fees = \<lparr>fee_platform = 0, fee_payment = 0, fee_withdrawal = 0, fee_total = 0\<rparr>"

definition new_transaction :: "user_id \<Rightarrow> tx_type \<Rightarrow> rat \<Rightarrow> currency \<Rightarrow> transaction" where
  "new_transaction uid ty a c =
     \<lparr>t_userId = uid, transactionId = [], t_gameId = None, t_type = ty, amount = a,
      t_currency = c, status = Pending, fees = zero_fees, paymentMethod = None,
      walletAddress = None, t_gateway = None, gatewayTransactionId = None,
      retryCount = 0, maxRetries = 3, nextRetry = None,
      v_required = False, v_kycLevel = KycBasic, v_verified = False,
      riskScore = 0, flagged = False, flagReason = None,
      logs = [], statusHistory = [], t_createdAt = 0,
      isNew = True, status_modified = False\<rparr>"

text \<open>
  Assigning \<open>this.status\<close>: Mongoose marks the path modified when the document is new or
  the value differs from the one held so far; the mark stays until the next save.
\<close>

definition set_status :: "tx_status \<Rightarrow> transaction \<Rightarrow> transaction" where
  "set_status s t =
     t\<lparr>status := s, status_modified := (status_modified t \<or> isNew t \<or> status t \<noteq> s)\<rparr>"

fun status_name :: "tx_status \<Rightarrow> string" where
  "status_name Pending = ''pending''"
| "status_name Processing = ''processing''"
| "status_name Completed = ''completed''"
| "status_name Failed = ''failed''"
| "status_name Cancelled = ''cancelled''"
| "status_name Expired = ''expired''"

fun type_prefix :: "tx_type \<Rightarrow> string" where
  "type_prefix GameReward = ''GR''"
| "type_prefix Withdrawal = ''WD''"
| "type_prefix Deposit = ''DP''"
| "type_prefix Bonus = ''BN''"
| "type_prefix Referral = ''RF''"
| "type_prefix Penalty = ''PN''"
| "type_prefix Refund = ''RD''"
| "type_prefix Fee = ''FE''"
| "type_prefix Purchase = ''PU''"

definition digit36 :: "nat \<Rightarrow> char" where
  "digit36 d = ''0123456789ABCDEFGHIJKLMNOPQRSTUVWXYZ'' ! d"

function base36 :: "nat \<Rightarrow> string" where
  "base36 n = (if n < 36 then [digit36 n] else base36 (n div 36) @ [digit36 (n mod 36)])"
  by pat_completeness auto
termination
  by (relation "measure id") auto

declare base36.simps [simp del]

definition generateTransactionId :: "env \<Rightarrow> transaction \<Rightarrow> string" where
  "generateTransactionId e t = type_prefix (t_type t) @ base36 (nat (now e)) @ random_hex e"

text \<open>
  The \<open>pre('save')\<close> hook, one function per step. In the third step the previous
  status is read from a query that is not awaited, so \<open>previousStatus?.status\<close> is
  undefined and the entry's \<open>from\<close> is \<open>'unknown'\<close>.
\<close>

definition assign_id :: "env \<Rightarrow> transaction \<Rightarrow> transaction" where
  "assign_id e t =
     (if isNew t \<and> transactionId t = []
      then t\<lparr>transactionId := generateTransactionId e t\<rparr> else t)"

definition total_fees :: "transaction \<Rightarrow> transaction" where
  "total_fees t =
     t\<lparr>fees := (fees t)\<lparr>fee_total := fee_platform (fees t) + fee_payment (fees t)
                                        + fee_withdrawal (fees t)\<rparr>\<rparr>"

definition hook_entry :: "env \<Rightarrow> tx_status \<Rightarrow> history_entry" where
  "hook_entry e s =
     \<lparr>h_from = None, h_to = s, h_timestamp = now e,
      h_reason = ''Status updated'', h_changedBy = None\<rparr>"

definition record_status_change :: "env \<Rightarrow> transaction \<Rightarrow> transaction" where
  "record_status_change e t =
     (if status_modified t \<and> \<not> isNew t
      then t\<lparr>statusHistory := statusHistory t @ [hook_entry e (status t)]\<rparr>
      else t)"

definition assess_large :: "transaction \<Rightarrow> transaction" where
  "assess_large t =
     (if t_type t = Withdrawal \<and> amount t > 1000
      then t\<lparr>v_required := True, riskScore := min 100 (riskScore t + 30)\<rparr>
      else t)"

definition flag_suspicious :: "transaction \<Rightarrow> transaction" where
  "flag_suspicious t =
     (if riskScore t > 70
      then t\<lparr>flagged := True, flagReason := Some ''High risk score detected''\<rparr>
      else t)"

definition pre_save_tx :: "env \<Rightarrow> transaction \<Rightarrow> transaction" where
  "pre_save_tx e t =
     flag_suspicious (assess_large (record_status_change e (total_fees (assign_id e t))))"

text \<open>
  Mongoose validates a document before any \<open>pre('save')\<close> hook of the schema runs.
  \<open>transactionId\<close> is \<open>required\<close>, and the hook that would generate it runs only after
  the validation: a document without a transaction id is rejected, new or not.
\<close>

definition validation_rejects :: "transaction \<Rightarrow> bool" where
  "validation_rejects t = (transactionId t = [])"

text \<open>
  \<open>save()\<close>, as it leaves the document: when the validation rejects it, nothing runs and
  nothing is stored, and the document stays as it was handed in; otherwise the hook runs,
  the document is stored and its change tracking is reset.
\<close>

definition save_tx :: "env \<Rightarrow> transaction \<Rightarrow> transaction" where
  "save_tx e t =
     (if validation_rejects t then t
      else (pre_save_tx e t)\<lparr>t_createdAt := (if isNew t then now e else t_createdAt t),
                             isNew := False, status_modified := False\<rparr>)"

text \<open>
  \<open>await document.save()\<close> where the caller goes on with the stored document: the
  rejection is the exception \<open>ValidationError\<close>.
\<close>

definition await_save :: "env \<Rightarrow> transaction \<Rightarrow> error + transaction" where
  "await_save e t = (if validation_rejects t then Inl ValidationError else Inr (save_tx e t))"

text \<open>
  The methods below end in \<open>return this.save()\<close>. Each is given as the document the call
  leaves behind: the assignments of the method, and the effect of the save when the
  validation accepts the document, as it does for every document that carries its id.
\<close>

definition addLog :: "env \<Rightarrow> string \<Rightarrow> string \<Rightarrow> string \<Rightarrow> transaction \<Rightarrow> transaction" where
  "addLog e action st message t =
     save_tx e (t\<lparr>logs := logs t @
                 [\<lparr>l_timestamp = now e, l_action = action, l_status = st, l_message = message\<rparr>]\<rparr>)"

definition explicit_entry ::
  "env \<Rightarrow> tx_status \<Rightarrow> tx_status \<Rightarrow> string \<Rightarrow> user_id option \<Rightarrow> history_entry" where
  "explicit_entry e oldStatus newStatus reason changedBy =
     \<lparr>h_from = Some oldStatus, h_to = newStatus, h_timestamp = now e,
      h_reason = reason, h_changedBy = changedBy\<rparr>"

definition updateStatus ::
  "env \<Rightarrow> tx_status \<Rightarrow> string \<Rightarrow> user_id option \<Rightarrow> transaction \<Rightarrow> transaction" where
  "updateStatus e newStatus reason changedBy t =
     addLog e ''status_change'' (status_name newStatus)
       (''Status changed from '' @ status_name (status t) @ '' to '' @ status_name newStatus
          @ '': '' @ reason)
       ((set_status newStatus t)
          \<lparr>statusHistory := statusHistory t @
             [explicit_entry e (status t) newStatus reason changedBy]\<rparr>)"

definition markCompleted :: "env \<Rightarrow> transaction \<Rightarrow> transaction" where
  "markCompleted e t =
     addLog e ''completed'' ''success'' ''Transaction completed successfully''
       (set_status Completed t)"

definition isFailed :: "transaction \<Rightarrow> bool" where
  "isFailed t = (status t \<in> set [Failed, Cancelled, Expired])"

definition isPending :: "transaction \<Rightarrow> bool" where
  "isPending t = (status t \<in> set [Pending, Processing])"

definition canRetry :: "transaction \<Rightarrow> bool" where
  "canRetry t = (isFailed t \<and> retryCount t < maxRetries t)"

definition schedule_retry :: "env \<Rightarrow> transaction \<Rightarrow> transaction" where
  "schedule_retry e t =
     (if canRetry t
      then t\<lparr>retryCount := retryCount t + 1,
             nextRetry := Some (now e + (retryCount t + 1) * 30 * 60 * 1000)\<rparr>
      else t)"

definition markFailed :: "env \<Rightarrow> string \<Rightarrow> transaction \<Rightarrow> transaction" where
  "markFailed e reason t =
     addLog e ''failed'' ''error'' reason (schedule_retry e (set_status Failed t))"

definition netAmount :: "transaction \<Rightarrow> rat" where
  "netAmount t = amount t - fee_total (fees t)"

definition stripe_fee :: "rat \<Rightarrow> rat" where
  "stripe_fee a = max (30 / 100) (a * (29 / 1000))"

definition fees_for :: "env \<Rightarrow> transaction \<Rightarrow> fee_breakdown" where
  "fees_for e t =
     (if t_type t = Withdrawal then
        zero_fees\<lparr>fee_withdrawal := amount t * withdrawalFeeRate e,
                  fee_payment := (if t_gateway t = Some Stripe then stripe_fee (amount t)
                                  else if t_gateway t = Some Epcm then amount t * (25 / 1000)
                                  else 0)\<rparr>
      else if t_type t = Deposit then
        zero_fees\<lparr>fee_payment := (if t_gateway t = Some Stripe then stripe_fee (amount t) else 0)\<rparr>
      else zero_fees)"

definition calculateFees :: "env \<Rightarrow> transaction \<Rightarrow> transaction" where
  "calculateFees e t =
     t\<lparr>fees := (fees_for e t)\<lparr>fee_total := fee_platform (fees_for e t)
                  + fee_payment (fees_for e t) + fee_withdrawal (fees_for e t)\<rparr>\<rparr>"

definition canBeProcessed :: "transaction \<Rightarrow> bool" where
  "canBeProcessed t = (status t = Pending \<and> \<not> flagged t \<and> (\<not> v_required t \<or> v_verified t))"

text \<open>
  \<open>Transaction.createGameReward\<close>: the document it builds (no transaction id is passed
  to the constructor), its status set to completed, and the awaited save.
\<close>

definition game_reward_document :: "user_id \<Rightarrow> nat \<Rightarrow> rat \<Rightarrow> transaction" where
  "game_reward_document uid gid a =
     set_status Completed ((new_transaction uid GameReward a BIGCOIN)\<lparr>t_gameId := Some gid\<rparr>)"

definition createGameReward :: "env \<Rightarrow> user_id \<Rightarrow> nat \<Rightarrow> rat \<Rightarrow> error + transaction" where
  "createGameReward e uid gid a = await_save e (game_reward_document uid gid a)"

record account_info =
  ai_address :: "string option"

text \<open>
  \<open>Transaction.createWithdrawal\<close>: the document it builds for a request of \<open>a\<close> units
  (again without a transaction id), and the awaited save.
\<close>

definition withdrawal_document ::
  "env \<Rightarrow> user_id \<Rightarrow> rat \<Rightarrow> pay_method \<Rightarrow> account_info \<Rightarrow> transaction" where
  "withdrawal_document e uid a method accountInfo =
     (let withdrawalFee = a * withdrawalFeeRate e;
          f = zero_fees\<lparr>fee_withdrawal := withdrawalFee, fee_total := withdrawalFee\<rparr>
      in (new_transaction uid Withdrawal (a - fee_total f) BIGCOIN)
           \<lparr>fees := f,
            paymentMethod := Some method,
            walletAddress := (if method = Crypto then ai_address accountInfo else None),
            t_gateway := Some (if method = BankTransfer then Epcm else Stripe),
            v_required := (a > 100),
            v_kycLevel := (if a > 1000 then KycEnhanced else KycBasic)\<rparr>)"

definition createWithdrawal ::
  "env \<Rightarrow> user_id \<Rightarrow> rat \<Rightarrow> pay_method \<Rightarrow> account_info \<Rightarrow> error + transaction" where
  "createWithdrawal e uid a method accountInfo =
     await_save e (withdrawal_document e uid a method accountInfo)"


section \<open>User model\<close>

datatype kyc_status = KycPending | KycVerified | KycRejected | KycNotSubmitted

record login_entry =
  login_location :: "string option"

datatype account_status = AccountActive | Suspended | Banned | Deleted

text \<open>
  The wallet, statistics, KYC, account status and security fields of a User document.
  \<open>experience_modified\<close> is \<open>isModified('statistics.experience')\<close>.
\<close>

record user =
  coins_total :: rat
  coins_available :: rat
  coins_pending :: rat
  experience :: rat
  level :: int
  kyc :: kyc_status
  u_status :: account_status
  accountLocked :: bool
  lockedUntil :: "millis option"
  loginHistory :: "login_entry list"
  u_createdAt :: millis
  experience_modified :: bool

text \<open>The level step of the \<open>pre('save')\<close> hook, then the store and the reset of the tracking.\<close>

definition save_user :: "user \<Rightarrow> user" where
  "save_user u =
     (let newLevel = \<lfloor>experience u / 1000\<rfloor> + 1
      in (if experience_modified u \<and> newLevel > level u then u\<lparr>level := newLevel\<rparr> else u)
           \<lparr>experience_modified := False\<rparr>)"

definition addCoins :: "rat \<Rightarrow> user \<Rightarrow> user" where
  "addCoins a u =
     save_user (u\<lparr>coins_available := coins_available u + a, coins_total := coins_total u + a\<rparr>)"

definition deductCoins :: "rat \<Rightarrow> user \<Rightarrow> error + user" where
  "deductCoins a u =
     (if coins_available u < a then Inl InsufficientCoins
      else Inr (save_user (u\<lparr>coins_available := coins_available u - a\<rparr>)))"

definition addExperience :: "rat \<Rightarrow> user \<Rightarrow> user" where
  "addExperience x u =
     save_user (u\<lparr>experience := experience u + x,
                  experience_modified := (experience_modified u \<or> x \<noteq> 0)\<rparr>)"

definition canWithdraw :: "env \<Rightarrow> rat \<Rightarrow> user \<Rightarrow> bool" where
  "canWithdraw e a u = (kyc u = KycVerified \<and> coins_available u \<ge> a \<and> a \<ge> minWithdrawal e)"

section \<open>Game model\<close>

datatype session_status = Active | SessionCompleted | Abandoned | Paused

datatype achievement_type = FirstGame | PerfectCombo | SpeedDemon | AccuracyMaster | EndurancePlayer

record reward =
  r_coins :: "rat option"
  r_experience :: "rat option"

record achievement =
  a_type :: achievement_type
  a_unlockedAt :: millis
  a_reward :: "reward option"

text \<open>
  A Game document: session, gameplay counters, scoring parts and the reward snapshot.
  \<open>g_isNew\<close> and \<open>totalScore_modified\<close> are the change tracking of
  \<open>scoring.totalScore\<close>; keystrokes, settings and analytics are left out.
\<close>

record game =
  g_userId :: user_id
  sessionId :: string
  startTime :: millis
  endTime :: "millis option"
  duration :: int
  session_status :: session_status
  totalNotes :: int
  correctNotes :: int
  accuracy :: rat
  maxCombo :: int
  baseScore :: rat
  comboBonus :: rat
  accuracyBonus :: rat
  speedBonus :: rat
  totalScore :: rat
  rw_points :: rat
  rw_coins :: rat
  rw_experience :: rat
  bonusCoins :: rat
  claimed :: bool
  claimedAt :: "millis option"
  achievements :: "achievement list"
  g_isNew :: bool
  totalScore_modified :: bool

text \<open>The \<open>pre('save')\<close> hook of the game, one function per step.\<close>

definition calc_accuracy :: "game \<Rightarrow> game" where
  "calc_accuracy g =
     (if totalNotes g > 0
      then g\<lparr>accuracy := of_int (correctNotes g) / of_int (totalNotes g) * 100\<rparr>
      else g)"

definition set_totalScore :: "rat \<Rightarrow> game \<Rightarrow> game" where
  "set_totalScore v g =
     g\<lparr>totalScore := v,
       totalScore_modified := (totalScore_modified g \<or> g_isNew g \<or> totalScore g \<noteq> v)\<rparr>"

definition calc_totalScore :: "game \<Rightarrow> game" where
  "calc_totalScore g =
     set_totalScore (baseScore g + comboBonus g + accuracyBonus g + speedBonus g) g"

definition calc_rewards :: "env \<Rightarrow> game \<Rightarrow> game" where
  "calc_rewards e g =
     (if totalScore_modified g
      then g\<lparr>rw_points := of_int \<lfloor>totalScore g\<rfloor>,
             rw_coins := of_int \<lfloor>totalScore g * coinPerPoint e\<rfloor>,
             rw_experience := of_int \<lfloor>totalScore g / 100\<rfloor>\<rparr>
      else g)"

definition calc_duration :: "game \<Rightarrow> game" where
  "calc_duration g =
     (case endTime g of
        Some t \<Rightarrow> g\<lparr>duration := \<lfloor>(of_int (t - startTime g) :: rat) / 1000\<rfloor>\<rparr>
      | None \<Rightarrow> g)"

definition pre_save_game :: "env \<Rightarrow> game \<Rightarrow> game" where
  "pre_save_game e g = calc_duration (calc_rewards e (calc_totalScore (calc_accuracy g)))"

definition save_game :: "env \<Rightarrow> game \<Rightarrow> game" where
  "save_game e g = (pre_save_game e g)\<lparr>g_isNew := False, totalScore_modified := False\<rparr>"

definition notesPerSecond :: "game \<Rightarrow> rat" where
  "notesPerSecond g = (if duration g = 0 then 0 else of_int (totalNotes g) / of_int (duration g))"

definition has_achievement :: "achievement_type \<Rightarrow> game \<Rightarrow> bool" where
  "has_achievement ty g = (find (\<lambda>a. a_type a = ty) (achievements g) \<noteq> None)"

definition unlock :: "env \<Rightarrow> achievement_type \<Rightarrow> rat \<Rightarrow> rat \<Rightarrow> game \<Rightarrow> game" where
  "unlock e ty c x g =
     g\<lparr>achievements := achievements g @
         [\<lparr>a_type = ty, a_unlockedAt = now e,
           a_reward = Some \<lparr>r_coins = Some c, r_experience = Some x\<rparr>\<rparr>]\<rparr>"

definition check_first_game :: "env \<Rightarrow> game \<Rightarrow> game" where
  "check_first_game e g =
     (if totalNotes g > 0 \<and> \<not> has_achievement FirstGame g then unlock e FirstGame 50 100 g else g)"

definition check_perfect_combo :: "env \<Rightarrow> game \<Rightarrow> game" where
  "check_perfect_combo e g =
     (if maxCombo g \<ge> 100 \<and> \<not> has_achievement PerfectCombo g
      then unlock e PerfectCombo 200 300 g else g)"

definition check_accuracy_master :: "env \<Rightarrow> game \<Rightarrow> game" where
  "check_accuracy_master e g =
     (if accuracy g \<ge> 98 \<and> \<not> has_achievement AccuracyMaster g
      then unlock e AccuracyMaster 150 250 g else g)"

definition check_speed_demon :: "env \<Rightarrow> game \<Rightarrow> game" where
  "check_speed_demon e g =
     (if notesPerSecond g \<ge> 6 \<and> \<not> has_achievement SpeedDemon g
      then unlock e SpeedDemon 100 200 g else g)"

definition check_endurance_player :: "env \<Rightarrow> game \<Rightarrow> game" where
  "check_endurance_player e g =
     (if duration g \<ge> 300 \<and> \<not> has_achievement EndurancePlayer g
      then unlock e EndurancePlayer 75 150 g else g)"

definition checkAchievements :: "env \<Rightarrow> game \<Rightarrow> game" where
  "checkAchievements e g =
     check_endurance_player e (check_speed_demon e (check_accuracy_master e
       (check_perfect_combo e (check_first_game e g))))"

definition completeGame :: "env \<Rightarrow> game \<Rightarrow> game" where
  "completeGame e g =
     save_game e (checkAchievements e (g\<lparr>session_status := SessionCompleted, endTime := Some (now e)\<rparr>))"

text \<open>\<open>x || 0\<close> on an optional number.\<close>

definition or0 :: "rat option \<Rightarrow> rat" where
  "or0 v = (case v of None \<Rightarrow> 0 | Some r \<Rightarrow> r)"

definition add_achievement_reward :: "rat \<times> rat \<Rightarrow> achievement \<Rightarrow> rat \<times> rat" where
  "add_achievement_reward acc a =
     (case a_reward a of
        Some r \<Rightarrow> (fst acc + or0 (r_coins r), snd acc + or0 (r_experience r))
      | None \<Rightarrow> acc)"

record reward_data =
  rd_coins :: rat
  rd_experience :: rat
  rd_achievements :: "achievement list"

text \<open>\<open>game.claimRewards()\<close>: the totals, then the claim flag, then the save.\<close>

definition claim_totals :: "game \<Rightarrow> rat \<times> rat" where
  "claim_totals g =
     foldl add_achievement_reward (rw_coins g + bonusCoins g, rw_experience g) (achievements g)"

definition game_claimRewards :: "env \<Rightarrow> game \<Rightarrow> error + (reward_data \<times> game)" where
  "game_claimRewards e g =
     (if claimed g then Inl RewardsAlreadyClaimed
      else Inr (\<lparr>rd_coins = fst (claim_totals g), rd_experience = snd (claim_totals g),
                 rd_achievements = achievements g\<rparr>,
                save_game e (g\<lparr>claimed := True, claimedAt := Some (now e)\<rparr>)))"


section \<open>The store\<close>

record db =
  users :: "user list"
  transactions :: "transaction list"
  games :: "game list"

text \<open>\<open>User.findById\<close>: \<open>None\<close> is the \<open>null\<close> of a missing document.\<close>

definition findById :: "db \<Rightarrow> user_id \<Rightarrow> user option" where
  "findById d uid = (if uid < length (users d) then Some (users d ! uid) else None)"

text \<open>\<open>findOne\<close>: the position of the first document that matches the filter.\<close>

fun findOne_index :: "('a \<Rightarrow> bool) \<Rightarrow> 'a list \<Rightarrow> nat option" where
  "findOne_index P [] = None"
| "findOne_index P (x # xs) = (if P x then Some 0 else map_option Suc (findOne_index P xs))"

definition put_user :: "user_id \<Rightarrow> user \<Rightarrow> db \<Rightarrow> db" where
  "put_user uid u d = d\<lparr>users := (users d)[uid := u]\<rparr>"

definition put_transaction :: "nat \<Rightarrow> transaction \<Rightarrow> db \<Rightarrow> db" where
  "put_transaction i t d = d\<lparr>transactions := (transactions d)[i := t]\<rparr>"

definition insert_transaction :: "transaction \<Rightarrow> db \<Rightarrow> db" where
  "insert_transaction t d = d\<lparr>transactions := transactions d @ [t]\<rparr>"

definition put_game :: "nat \<Rightarrow> game \<Rightarrow> db \<Rightarrow> db" where
  "put_game i g d = d\<lparr>games := (games d)[i := g]\<rparr>"

section \<open>Payment service: withdrawals\<close>

text \<open>The uniform result of a payment rail: the external id on success, the error otherwise.\<close>

datatype gw_result = GwSuccess string | GwFailure string

definition in_range :: "char \<Rightarrow> char \<Rightarrow> char \<Rightarrow> bool" where
  "in_range lo hi c = ((of_char lo :: nat) \<le> of_char c \<and> (of_char c :: nat) \<le> of_char hi)"

definition is_hex :: "char \<Rightarrow> bool" where
  "is_hex c = (in_range CHR ''a'' CHR ''f'' c \<or> in_range CHR ''A'' CHR ''F'' c
               \<or> in_range CHR ''0'' CHR ''9'' c)"

definition is_base58 :: "char \<Rightarrow> bool" where
  "is_base58 c = (in_range CHR ''a'' CHR ''k'' c \<or> in_range CHR ''m'' CHR ''z'' c
                  \<or> in_range CHR ''A'' CHR ''H'' c \<or> in_range CHR ''J'' CHR ''N'' c
                  \<or> in_range CHR ''P'' CHR ''Z'' c \<or> in_range CHR ''1'' CHR ''9'' c)"

definition bitcoin_pattern :: "string \<Rightarrow> bool" where
  "bitcoin_pattern s =
     (case s of
        [] \<Rightarrow> False
      | c # r \<Rightarrow> (c = CHR ''1'' \<or> c = CHR ''3'') \<and> 25 \<le> length r \<and> length r \<le> 34
                 \<and> list_all is_base58 r)"

definition ethereum_pattern :: "string \<Rightarrow> bool" where
  "ethereum_pattern s = (take 2 s = ''0x'' \<and> length s = 42 \<and> list_all is_hex (drop 2 s))"

text \<open>An undefined address is tested as the text \<open>undefined\<close>, which matches no pattern.\<close>

definition validateWalletAddress :: "string option \<Rightarrow> bool" where
  "validateWalletAddress address =
     (case address of
        None \<Rightarrow> False
      | Some s \<Rightarrow> bitcoin_pattern s \<or> ethereum_pattern s \<or> ethereum_pattern s)"

definition processCryptoWithdrawal :: "env \<Rightarrow> transaction \<Rightarrow> gw_result" where
  "processCryptoWithdrawal e t =
     (if \<not> validateWalletAddress (walletAddress t)
      then GwFailure ''Invalid wallet address format''
      else GwSuccess (random_uuid e))"

definition processPayPalWithdrawal :: "env \<Rightarrow> transaction \<Rightarrow> gw_result" where
  "processPayPalWithdrawal e t = GwSuccess (random_uuid e)"

text \<open>
  The \<open>switch (method)\<close>. The bank transfer goes to the external ePCM service, whose
  answer \<open>bank_reply\<close> is an input; \<open>None\<close> is the \<open>default\<close> branch, which throws.
\<close>

definition dispatch_withdrawal ::
  "env \<Rightarrow> gw_result \<Rightarrow> pay_method \<Rightarrow> transaction \<Rightarrow> gw_result option" where
  "dispatch_withdrawal e bank_reply method t =
     (case method of
        BankTransfer \<Rightarrow> Some bank_reply
      | Crypto \<Rightarrow> Some (processCryptoWithdrawal e t)
      | Paypal \<Rightarrow> Some (processPayPalWithdrawal e t)
      | OtherMethod m \<Rightarrow> None)"

definition getEstimatedProcessingTime :: "pay_method \<Rightarrow> string" where
  "getEstimatedProcessingTime method =
     (case method of
        BankTransfer \<Rightarrow> ''1-3 business days''
      | Crypto \<Rightarrow> ''10-30 minutes''
      | Paypal \<Rightarrow> ''2-5 business days''
      | OtherMethod m \<Rightarrow> ''Unknown'')"

record withdraw_response =
  w_success :: bool
  w_transactionId :: string
  w_message :: string
  w_estimatedTime :: string

text \<open>The reservation: \<open>deductCoins\<close>, then the amount is added to \<open>coins.pending\<close>.\<close>

definition reserve_funds :: "rat \<Rightarrow> user \<Rightarrow> error + user" where
  "reserve_funds a u =
     (case deductCoins a u of
        Inl err \<Rightarrow> Inl err
      | Inr u1 \<Rightarrow> Inr (save_user (u1\<lparr>coins_pending := coins_pending u1 + a\<rparr>)))"

text \<open>The two branches after the rail has answered.\<close>

definition settle_success :: "env \<Rightarrow> rat \<Rightarrow> transaction \<Rightarrow> user \<Rightarrow> transaction \<times> user" where
  "settle_success e a t u =
     (markCompleted e t, save_user (u\<lparr>coins_pending := coins_pending u - a\<rparr>))"

definition settle_failure ::
  "env \<Rightarrow> string \<Rightarrow> rat \<Rightarrow> transaction \<Rightarrow> user \<Rightarrow> transaction \<times> user" where
  "settle_failure e err a t u =
     (markFailed e err t,
      save_user (u\<lparr>coins_available := coins_available u + a, coins_pending := coins_pending u - a\<rparr>))"

definition settle :: "env \<Rightarrow> gw_result \<Rightarrow> rat \<Rightarrow> transaction \<Rightarrow> user \<Rightarrow> transaction \<times> user" where
  "settle e result a t u =
     (case result of
        GwSuccess ext \<Rightarrow> settle_success e a t u
      | GwFailure err \<Rightarrow> settle_failure e err a t u)"

definition withdraw_reply :: "gw_result \<Rightarrow> pay_method \<Rightarrow> transaction \<Rightarrow> withdraw_response" where
  "withdraw_reply result method t =
     \<lparr>w_success = (case result of GwSuccess ext \<Rightarrow> True | GwFailure err \<Rightarrow> False),
      w_transactionId = transactionId t,
      w_message = (case result of GwSuccess ext \<Rightarrow> ''Withdrawal processed successfully''
                                | GwFailure err \<Rightarrow> err),
      w_estimatedTime = getEstimatedProcessingTime method\<rparr>"

text \<open>
  \<open>PaymentService.processWithdrawal\<close>. An error is the inner message of the
  \<open>Withdrawal failed: ...\<close> exception; the store is returned as the throw left it.
  The exception of \<open>createWithdrawal\<close> leaves the function before the reservation.
\<close>

definition processWithdrawal ::
  "env \<Rightarrow> gw_result \<Rightarrow> user_id \<Rightarrow> rat \<Rightarrow> pay_method \<Rightarrow> account_info \<Rightarrow> db
     \<Rightarrow> (error + withdraw_response) \<times> db" where
  "processWithdrawal e bank_reply uid a method accountInfo d =
     (case findById d uid of
        None \<Rightarrow> (Inl UserNotFound, d)
      | Some u \<Rightarrow>
          if \<not> canWithdraw e a u then (Inl WithdrawalNotAllowed, d)
          else if getUserBalance uid (transactions d) < a then (Inl InsufficientBalance, d)
          else
            (case createWithdrawal e uid a method accountInfo of
               Inl err \<Rightarrow> (Inl err, d)
             | Inr t \<Rightarrow>
                 (let i = length (transactions d);
                      d1 = insert_transaction t d
                  in case reserve_funds a u of
                       Inl err \<Rightarrow> (Inl err, d1)
                     | Inr u1 \<Rightarrow>
                         (case dispatch_withdrawal e bank_reply method t of
                            None \<Rightarrow> (Inl UnsupportedWithdrawalMethod, put_user uid u1 d1)
                          | Some result \<Rightarrow>
                              (Inr (withdraw_reply result method t),
                               put_user uid (snd (settle e result a t u1))
                                 (put_transaction i (fst (settle e result a t u1))
                                    (put_user uid u1 d1)))))))"

section \<open>Payment service: deposits and the gateway webhook\<close>

datatype intent_status = Succeeded | RequiresAction | OtherIntentStatus

record payment_intent =
  pi_id :: string
  pi_status :: intent_status

record deposit_response =
  d_success :: bool
  d_transactionId :: "string option"
  d_coinsAdded :: "rat option"
  d_requiresAction :: bool

text \<open>The transaction record that \<open>processDeposit\<close> builds, without a transaction id.\<close>

definition deposit_document :: "user_id \<Rightarrow> rat \<Rightarrow> currency \<Rightarrow> payment_intent \<Rightarrow> transaction" where
  "deposit_document uid a c intent =
     (new_transaction uid Deposit a c)
       \<lparr>status := Processing, t_gateway := Some Stripe,
        gatewayTransactionId := Some (pi_id intent)\<rparr>"

text \<open>
  \<open>PaymentService.processDeposit\<close>. \<open>stripe_reply\<close> is what
  \<open>stripe.paymentIntents.create\<close> did: \<open>Inl\<close> the message of the exception it threw,
  \<open>Inr\<close> the payment intent it returned. The exception of \<open>await transaction.save()\<close>
  leaves the function before \<open>markCompleted\<close> and \<open>addCoins\<close>.
\<close>

definition processDeposit ::
  "env \<Rightarrow> string + payment_intent \<Rightarrow> user_id \<Rightarrow> rat \<Rightarrow> currency \<Rightarrow> db
     \<Rightarrow> (error + deposit_response) \<times> db" where
  "processDeposit e stripe_reply uid a c d =
     (case findById d uid of
        None \<Rightarrow> (Inl UserNotFound, d)
      | Some u \<Rightarrow>
          (case stripe_reply of
             Inl msg \<Rightarrow> (Inl (GatewayError msg), d)
           | Inr intent \<Rightarrow>
               (case await_save e (deposit_document uid a c intent) of
                  Inl err \<Rightarrow> (Inl err, d)
                | Inr t \<Rightarrow>
                    (let i = length (transactions d);
                         d1 = insert_transaction t d
                     in if pi_status intent = Succeeded
                        then (let bigCoinAmount = a * 100
                              in (Inr \<lparr>d_success = True,
                                       d_transactionId = Some (transactionId t),
                                       d_coinsAdded = Some bigCoinAmount,
                                       d_requiresAction = False\<rparr>,
                                  put_user uid (addCoins bigCoinAmount u)
                                    (put_transaction i (markCompleted e t) d1)))
                        else (Inr \<lparr>d_success = False, d_transactionId = None,
                                   d_coinsAdded = None,
                                   d_requiresAction = (pi_status intent = RequiresAction)\<rparr>,
                              d1)))))"

text \<open>
  \<open>PaymentService.handlePaymentSuccess\<close>, for the payment intent with id \<open>pid\<close>.
  \<open>Inl NullUser\<close> is the TypeError of \<open>user.addCoins\<close> on a missing user. The
  transaction it works on comes out of the collection, where every document carries its
  transaction id.
\<close>

definition credit_deposit :: "transaction \<Rightarrow> db \<Rightarrow> (error + unit) \<times> db" where
  "credit_deposit t d =
     (if t_type t = Deposit
      then (let bigCoinAmount = amount t * 100
            in case findById d (t_userId t) of
                 None \<Rightarrow> (Inl NullUser, d)
               | Some u \<Rightarrow> (Inr (), put_user (t_userId t) (addCoins bigCoinAmount u) d))
      else (Inr (), d))"

definition handlePaymentSuccess :: "env \<Rightarrow> string \<Rightarrow> db \<Rightarrow> (error + unit) \<times> db" where
  "handlePaymentSuccess e pid d =
     (case findOne_index (\<lambda>t. gatewayTransactionId t = Some pid) (transactions d) of
        None \<Rightarrow> (Inr (), d)
      | Some i \<Rightarrow>
          if status (transactions d ! i) = Processing
          then credit_deposit (markCompleted e (transactions d ! i))
                 (put_transaction i (markCompleted e (transactions d ! i)) d)
          else (Inr (), d))"


section \<open>Risk and compliance gate\<close>

record transaction_data =
  td_type :: tx_type
  td_amount :: rat
  td_location :: "string option"

record risk_assessment =
  ra_riskScore :: rat
  ra_flags :: "string list"
  requiresReview :: bool
  requiresApproval :: bool

text \<open>The four checks of \<open>monitorSuspiciousActivity\<close>; each yields what it adds and its flag.\<close>

definition recentWithdrawals :: "env \<Rightarrow> user_id \<Rightarrow> transaction list \<Rightarrow> transaction list" where
  "recentWithdrawals e uid txs =
     filter (\<lambda>t. t_type t = Withdrawal)
       (filter (\<lambda>t. t_userId t = uid \<and> t_createdAt t \<ge> now e - 24 * 60 * 60 * 1000) txs)"

definition rapid_withdrawals :: "env \<Rightarrow> user_id \<Rightarrow> transaction list \<Rightarrow> bool" where
  "rapid_withdrawals e uid txs = (length (recentWithdrawals e uid txs) > 3)"

text \<open>The \<open>$avg\<close> aggregation: no result when the user has no transaction of the type.\<close>

definition userAvgTransaction :: "user_id \<Rightarrow> tx_type \<Rightarrow> transaction list \<Rightarrow> rat option" where
  "userAvgTransaction uid ty txs =
     (let ms = filter (\<lambda>t. t_userId t = uid \<and> t_type t = ty) txs
      in if ms = [] then None else Some (sum_list (map amount ms) / of_nat (length ms)))"

definition unusual_amount :: "user_id \<Rightarrow> transaction list \<Rightarrow> transaction_data \<Rightarrow> bool" where
  "unusual_amount uid txs td =
     (case userAvgTransaction uid (td_type td) txs of
        None \<Rightarrow> False
      | Some avgAmount \<Rightarrow> td_amount td > avgAmount * 5)"

definition accountAge :: "env \<Rightarrow> user \<Rightarrow> rat" where
  "accountAge e u = of_int (now e - u_createdAt u) / (1000 * 60 * 60 * 24)"

definition new_account_activity :: "env \<Rightarrow> user \<Rightarrow> transaction_data \<Rightarrow> bool" where
  "new_account_activity e u td = (accountAge e u < 7 \<and> td_amount td > 500)"

definition truthy :: "string option \<Rightarrow> bool" where
  "truthy v = (case v of None \<Rightarrow> False | Some s \<Rightarrow> s \<noteq> [])"

definition different_location :: "user \<Rightarrow> transaction_data \<Rightarrow> bool" where
  "different_location u td =
     (case loginHistory u of
        [] \<Rightarrow> False
      | l # ls \<Rightarrow> truthy (td_location td) \<and> login_location l \<noteq> td_location td)"

definition raw_risk :: "env \<Rightarrow> user \<Rightarrow> user_id \<Rightarrow> transaction list \<Rightarrow> transaction_data \<Rightarrow> rat" where
  "raw_risk e u uid txs td =
     (if rapid_withdrawals e uid txs then 30 else 0)
     + (if unusual_amount uid txs td then 25 else 0)
     + (if new_account_activity e u td then 40 else 0)
     + (if different_location u td then 20 else 0)"

definition risk_flags ::
  "env \<Rightarrow> user \<Rightarrow> user_id \<Rightarrow> transaction list \<Rightarrow> transaction_data \<Rightarrow> string list" where
  "risk_flags e u uid txs td =
     (if rapid_withdrawals e uid txs then [''Multiple withdrawals in 24h''] else [])
     @ (if unusual_amount uid txs td then [''Amount significantly higher than usual''] else [])
     @ (if new_account_activity e u td then [''Large transaction from new account''] else [])
     @ (if different_location u td then [''Transaction from different location''] else [])"

text \<open>
  \<open>PaymentService.monitorSuspiciousActivity\<close>. With a missing user the read of
  \<open>user.createdAt\<close> throws and the \<open>catch\<close> branch answers.
\<close>

definition monitorSuspiciousActivity ::
  "env \<Rightarrow> db \<Rightarrow> user_id \<Rightarrow> transaction_data \<Rightarrow> risk_assessment" where
  "monitorSuspiciousActivity e d uid td =
     (case findById d uid of
        None \<Rightarrow> \<lparr>ra_riskScore = 50, ra_flags = [''Error in risk assessment''],
                  requiresReview = True, requiresApproval = False\<rparr>
      | Some u \<Rightarrow>
          \<lparr>ra_riskScore = min 100 (raw_risk e u uid (transactions d) td),
           ra_flags = risk_flags e u uid (transactions d) td,
           requiresReview = (raw_risk e u uid (transactions d) td > 70),
           requiresApproval = (raw_risk e u uid (transactions d) td > 50)\<rparr>)"

datatype kyc_tier = TierNone | TierBasic | TierEnhanced | TierFull

fun tier_index :: "kyc_tier \<Rightarrow> nat" where
  "tier_index TierNone = 0"
| "tier_index TierBasic = 1"
| "tier_index TierEnhanced = 2"
| "tier_index TierFull = 3"

definition compareKYCLevels :: "kyc_tier \<Rightarrow> kyc_tier \<Rightarrow> bool" where
  "compareKYCLevels current required = (tier_index current \<ge> tier_index required)"

record kyc_check =
  kc_allowed :: bool
  kc_currentLevel :: kyc_tier
  kc_requiredLevel :: kyc_tier

definition requiredLevel :: "rat \<Rightarrow> kyc_tier" where
  "requiredLevel a =
     (if a \<ge> 10000 then TierFull
      else if a \<ge> 1000 then TierEnhanced
      else if a \<ge> 100 then TierBasic
      else TierNone)"

definition verifyKYCForTransaction :: "db \<Rightarrow> user_id \<Rightarrow> rat \<Rightarrow> error + kyc_check" where
  "verifyKYCForTransaction d uid a =
     (case findById d uid of
        None \<Rightarrow> Inl UserNotFound
      | Some u \<Rightarrow>
          (let currentLevel = (if kyc u = KycVerified then TierEnhanced else TierNone)
           in Inr \<lparr>kc_allowed = compareKYCLevels currentLevel (requiredLevel a),
                   kc_currentLevel = currentLevel,
                   kc_requiredLevel = requiredLevel a\<rparr>))"

text \<open>
  \<open>POST /withdraw\<close>: the answers of the route, by status code. The request carries a
  valid token of user \<open>uid\<close>, the amount, the method and the account information
  (\<open>None\<close> when absent), the \<open>x-user-location\<close> header and the client address.
\<close>

datatype withdraw_outcome =
    Unauthorized
  | AccountNotActive
  | AccountLocked
  | KycVerificationRequired
  | BadRequest string
  | KycRequired kyc_tier kyc_tier
  | HeldForReview "string list"
  | Submitted withdraw_response
  | ServerError error

text \<open>\<open>header || fallback\<close>: the header when it is present and not empty.\<close>

definition request_location :: "string option \<Rightarrow> string \<Rightarrow> string option" where
  "request_location header ip = (if truthy header then header else Some ip)"

text \<open>
  The \<open>authenticateToken\<close> middleware, after the token has been verified. The comparison
  of the session header with \<open>user.security.sessionId\<close> always takes the branch, since
  the schema has no such path: an entry with the location \<open>header || 'Unknown'\<close> is put
  in front of the login history, the history is cut to 10 entries and the user is saved.
\<close>

definition login_update :: "string option \<Rightarrow> user \<Rightarrow> user" where
  "login_update header u =
     save_user (u\<lparr>loginHistory :=
        take 10 (\<lparr>login_location = request_location header ''Unknown''\<rparr> # loginHistory u)\<rparr>)"

definition is_locked :: "env \<Rightarrow> user \<Rightarrow> bool" where
  "is_locked e u =
     (accountLocked u \<and> (case lockedUntil u of None \<Rightarrow> False | Some t \<Rightarrow> t > now e))"

definition authenticateToken ::
  "env \<Rightarrow> string option \<Rightarrow> user_id \<Rightarrow> db \<Rightarrow> withdraw_outcome + db" where
  "authenticateToken e header uid d =
     (case findById d uid of
        None \<Rightarrow> Inl Unauthorized
      | Some u \<Rightarrow>
          if u_status u \<noteq> AccountActive then Inl AccountNotActive
          else if is_locked e u then Inl AccountLocked
          else Inr (put_user uid (login_update header u) d))"

text \<open>
  The handler of the route, on the store as the middleware left it and for the user it
  loaded.
\<close>

definition withdraw_handler ::
  "env \<Rightarrow> gw_result \<Rightarrow> user_id \<Rightarrow> rat \<Rightarrow> pay_method option \<Rightarrow> account_info option
     \<Rightarrow> string option \<Rightarrow> string \<Rightarrow> db \<Rightarrow> withdraw_outcome \<times> db" where
  "withdraw_handler e bank_reply uid a method accountInfo header ip d =
     (case (method, accountInfo) of
        (Some m, Some ai) \<Rightarrow>
          if a = 0
          then (BadRequest ''Amount, withdrawal method, and account information are required'', d)
          else if a \<le> 0 then (BadRequest ''Amount must be greater than 0'', d)
          else if a < minWithdrawal e then (BadRequest ''Minimum withdrawal amount'', d)
          else if m \<notin> set [BankTransfer, Crypto, Paypal]
          then (BadRequest ''Invalid withdrawal method'', d)
          else if getUserBalance uid (transactions d) < a
          then (BadRequest ''Insufficient balance'', d)
          else
            (case verifyKYCForTransaction d uid a of
               Inl err \<Rightarrow> (ServerError err, d)
             | Inr kycCheck \<Rightarrow>
                 if \<not> kc_allowed kycCheck
                 then (KycRequired (kc_requiredLevel kycCheck) (kc_currentLevel kycCheck), d)
                 else
                   (let riskAssessment = monitorSuspiciousActivity e d uid
                          \<lparr>td_type = Withdrawal, td_amount = a,
                           td_location = request_location header ip\<rparr>
                    in if requiresReview riskAssessment
                       then (HeldForReview (ra_flags riskAssessment), d)
                       else (case processWithdrawal e bank_reply uid a m ai d of
                               (Inl err, d') \<Rightarrow> (ServerError err, d')
                             | (Inr r, d') \<Rightarrow> (Submitted r, d'))))
      | _ \<Rightarrow> (BadRequest ''Amount, withdrawal method, and account information are required'', d))"

text \<open>
  The route: \<open>authenticateToken\<close>, then \<open>requireKYC('verified')\<close> on the user it loaded,
  then the handler. The rate limiter is left out.
\<close>

definition route_withdraw ::
  "env \<Rightarrow> gw_result \<Rightarrow> user_id \<Rightarrow> rat \<Rightarrow> pay_method option \<Rightarrow> account_info option
     \<Rightarrow> string option \<Rightarrow> string \<Rightarrow> db \<Rightarrow> withdraw_outcome \<times> db" where
  "route_withdraw e bank_reply uid a method accountInfo header ip d =
     (case authenticateToken e header uid d of
        Inl answer \<Rightarrow> (answer, d)
      | Inr d1 \<Rightarrow>
          (case findById d1 uid of
             None \<Rightarrow> (Unauthorized, d1)
           | Some u \<Rightarrow>
               if kyc u \<noteq> KycVerified then (KycVerificationRequired, d1)
               else withdraw_handler e bank_reply uid a method accountInfo header ip d1))"

section \<open>Game service: reward settlement\<close>

record claim_response =
  c_rewards :: reward_data
  c_newBalance :: rat
  c_newLevel :: int
  c_experienceGained :: rat

text \<open>
  \<open>GameService.claimRewards\<close>. The query selects the user's session with this id in
  status \<open>completed\<close>; the errors are the inner messages of the
  \<open>Failed to claim rewards: ...\<close> exception. The steps after the game's own claim:
  the user is credited and saved, then \<open>createGameReward\<close> is awaited, whose exception
  leaves the function with the game claimed and the wallet credited.
\<close>

definition credit_reward ::
  "env \<Rightarrow> user_id \<Rightarrow> nat \<Rightarrow> reward_data \<Rightarrow> db \<Rightarrow> (error + claim_response) \<times> db" where
  "credit_reward e uid gid rewardData d =
     (case findById d uid of
        None \<Rightarrow> (Inl NullUser, d)
      | Some u \<Rightarrow>
          (let u' = addExperience (rd_experience rewardData) (addCoins (rd_coins rewardData) u)
           in case createGameReward e uid gid (rd_coins rewardData) of
                Inl err \<Rightarrow> (Inl err, put_user uid u' d)
              | Inr t \<Rightarrow>
                  (Inr \<lparr>c_rewards = rewardData, c_newBalance = coins_available u',
                        c_newLevel = level u', c_experienceGained = rd_experience rewardData\<rparr>,
                   insert_transaction t (put_user uid u' d))))"

definition claimRewards :: "env \<Rightarrow> string \<Rightarrow> user_id \<Rightarrow> db \<Rightarrow> (error + claim_response) \<times> db" where
  "claimRewards e sid uid d =
     (case findOne_index (\<lambda>g. sessionId g = sid \<and> g_userId g = uid
                              \<and> session_status g = SessionCompleted) (games d) of
        None \<Rightarrow> (Inl SessionNotFoundOrNotCompleted, d)
      | Some i \<Rightarrow>
          if claimed (games d ! i) then (Inl RewardsAlreadyClaimed, d)
          else (case game_claimRewards e (games d ! i) of
                  Inl err \<Rightarrow> (Inl err, d)
                | Inr (rewardData, g') \<Rightarrow> credit_reward e uid i rewardData (put_game i g' d)))"


section \<open>Auxiliary definitions for the statements\<close>

text \<open>The contribution of one transaction to the balance: its amount, signed by its type.\<close>

definition signed :: "tx_type \<Rightarrow> rat \<Rightarrow> rat" where
  "signed k v = (if k \<in> set credit_types then v else if k \<in> set debit_types then - v else 0)"

text \<open>
  The transition set of the specification's state machine, as the specification lists it:
  pending to processing, processing to completed or failed, failed to processing (retry),
  anything to cancelled, pending to expired.
\<close>

definition spec_legal_transition :: "tx_status \<Rightarrow> tx_status \<Rightarrow> bool" where
  "spec_legal_transition a b =
     ((a, b) \<in> set [(Pending, Processing), (Processing, Completed), (Processing, Failed),
                     (Failed, Processing), (Pending, Expired)] \<or> b = Cancelled)"

section \<open>Example data\<close>

definition example_env :: env where
  "example_env = \<lparr>now = 1700000000000, random_hex = ''9F3A11C0'', random_uuid = ''0b6e'',
     WITHDRAWAL_FEE = None, COIN_PER_POINT = None, MIN_WITHDRAWAL = None\<rparr>"

text \<open>
  A stored withdrawal: the document of a withdrawal request of 1000 units by bank
  transfer, held in the collection under the transaction id \<open>tid\<close>; the example
  withdrawal is the one with the id \<open>WD1\<close>.
\<close>

definition stored_withdrawal :: "string \<Rightarrow> transaction" where
  "stored_withdrawal tid =
     save_tx example_env
       ((withdrawal_document example_env 0 1000 BankTransfer \<lparr>ai_address = None\<rparr>)
          \<lparr>transactionId := tid\<rparr>)"

definition example_withdrawal :: transaction where
  "example_withdrawal = stored_withdrawal ''WD1''"

text \<open>A withdrawal transaction whose amount field is 1000, on the bank gateway.\<close>

definition example_fee_input :: transaction where
  "example_fee_input = (new_transaction 0 Withdrawal 1000 BIGCOIN)\<lparr>t_gateway := Some Epcm\<rparr>"

text \<open>
  A verified, active user whose account is three days old, with one completed bonus of
  5000 coins in the ledger, and the session of that user described below.
\<close>

definition example_user :: user where
  "example_user =
     \<lparr>coins_total = 5000, coins_available = 5000, coins_pending = 0, experience = 0, level = 1,
      kyc = KycVerified, u_status = AccountActive, accountLocked = False, lockedUntil = None,
      loginHistory = [\<lparr>login_location = Some ''SG''\<rparr>],
      u_createdAt = 1700000000000 - 3 * 24 * 60 * 60 * 1000, experience_modified = False\<rparr>"

definition example_bonus :: transaction where
  "example_bonus =
     (new_transaction 0 Bonus 5000 BIGCOIN)
       \<lparr>transactionId := ''BN1'', status := Completed, t_createdAt := 1699900000000,
        isNew := False\<rparr>"

text \<open>
  An active session of 100 notes, 96 of them hit, whose score parts add up to 10000 and
  whose saved reward snapshot is the one of that score; \<open>example_session\<close> is the session
  after \<open>completeGame\<close>.
\<close>

definition example_active_game :: game where
  "example_active_game =
     \<lparr>g_userId = 0, sessionId = ''s1'', startTime = 1700000000000 - 200000, endTime = None,
      duration = 0, session_status = Active, totalNotes = 100, correctNotes = 96,
      accuracy = 96, maxCombo = 50, baseScore = 5000, comboBonus = 2500,
      accuracyBonus = 2500, speedBonus = 0, totalScore = 10000, rw_points = 10000,
      rw_coins = 10, rw_experience = 100, bonusCoins = 0, claimed = False, claimedAt = None,
      achievements = [], g_isNew = False, totalScore_modified = False\<rparr>"

definition example_session :: game where
  "example_session = completeGame example_env example_active_game"

definition example_store :: db where
  "example_store =
     \<lparr>users = [example_user], transactions = [example_bonus], games = [example_session]\<rparr>"

text \<open>
  A stored deposit of 50 USD of the example user that awaits the gateway's confirmation,
  held under the transaction id \<open>DP1\<close>; the store holding it, and that store after the
  success notification of its payment intent.
\<close>

definition example_deposit :: transaction where
  "example_deposit =
     save_tx example_env
       ((deposit_document 0 50 USD \<lparr>pi_id = ''pi_1'', pi_status = RequiresAction\<rparr>)
          \<lparr>transactionId := ''DP1''\<rparr>)"

definition example_deposit_store :: db where
  "example_deposit_store =
     \<lparr>users = [example_user], transactions = [example_bonus, example_deposit], games = []\<rparr>"

definition example_webhook_store :: db where
  "example_webhook_store = snd (handlePaymentSuccess example_env ''pi_1'' example_deposit_store)"

text \<open>The coin and experience bonus of one achievement, as the claim loop adds it.\<close>

definition achievement_coins :: "achievement \<Rightarrow> rat" where
  "achievement_coins a = (case a_reward a of Some r \<Rightarrow> or0 (r_coins r) | None \<Rightarrow> 0)"

definition achievement_experience :: "achievement \<Rightarrow> rat" where
  "achievement_experience a = (case a_reward a of Some r \<Rightarrow> or0 (r_experience r) | None \<Rightarrow> 0)"

text \<open>The filter of the settlement query, the game as a claim stores it, and what it returns.\<close>

abbreviation completed_session :: "string \<Rightarrow> user_id \<Rightarrow> game \<Rightarrow> bool" where
  "completed_session sid uid \<equiv>
     (\<lambda>g. sessionId g = sid \<and> g_userId g = uid \<and> session_status g = SessionCompleted)"

definition claimed_game :: "env \<Rightarrow> game \<Rightarrow> game" where
  "claimed_game e g = save_game e (g\<lparr>claimed := True, claimedAt := Some (now e)\<rparr>)"

definition claim_data :: "game \<Rightarrow> reward_data" where
  "claim_data g = \<lparr>rd_coins = fst (claim_totals g), rd_experience = snd (claim_totals g),
                   rd_achievements = achievements g\<rparr>"

definition game_reward_count :: "db \<Rightarrow> nat" where
  "game_reward_count d = length (filter (\<lambda>t. t_type t = GameReward) (transactions d))"


text \<open>The example store as a call of \<open>claimRewards\<close> for session \<open>s1\<close> leaves it.\<close>

definition example_claimed_store :: db where
  "example_claimed_store = snd (claimRewards example_env ''s1'' 0 example_store)"

text \<open>The example store with the session still active, not yet completed.\<close>

definition example_active_store :: db where
  "example_active_store =
     \<lparr>users = [example_user], transactions = [example_bonus], games = [example_active_game]\<rparr>"

text \<open>
  A withdrawal request of 2000 units that carries the location header \<open>SG\<close>, and the
  example store after \<open>authenticateToken\<close> has recorded that request.
\<close>

definition example_request :: transaction_data where
  "example_request = \<lparr>td_type = Withdrawal, td_amount = 2000, td_location = Some ''SG''\<rparr>"

definition example_quiet_store :: db where
  "example_quiet_store = put_user 0 (login_update (Some ''SG'') example_user) example_store"

text \<open>
  A store with four stored withdrawals of the last minutes; a request of 2000 units
  without a location header, sent from the address \<open>10.0.0.1\<close>; and the store after
  \<open>authenticateToken\<close> has recorded that request.
\<close>

definition example_busy_store :: db where
  "example_busy_store =
     \<lparr>users = [example_user],
      transactions = [example_bonus, example_withdrawal, stored_withdrawal ''WD2'',
                      stored_withdrawal ''WD3'', stored_withdrawal ''WD4''],
      games = []\<rparr>"

definition example_remote_request :: transaction_data where
  "example_remote_request =
     \<lparr>td_type = Withdrawal, td_amount = 2000, td_location = Some ''10.0.0.1''\<rparr>"

definition example_held_store :: db where
  "example_held_store = put_user 0 (login_update None example_user) example_busy_store"

section \<open>Transaction model: what each operation does to the fields\<close>

lemmas hook_defs = pre_save_tx_def flag_suspicious_def assess_large_def
  record_status_change_def total_fees_def assign_id_def

lemma save_tx_fields [simp]:
  "status (save_tx e t) = status t"
  "amount (save_tx e t) = amount t"
  "t_type (save_tx e t) = t_type t"
  "t_userId (save_tx e t) = t_userId t"
  "t_gameId (save_tx e t) = t_gameId t"
  "gatewayTransactionId (save_tx e t) = gatewayTransactionId t"
  "retryCount (save_tx e t) = retryCount t"
  "maxRetries (save_tx e t) = maxRetries t"
  "nextRetry (save_tx e t) = nextRetry t"
  "transactionId (save_tx e t) = transactionId t"
  "isNew (save_tx e t) = (transactionId t = [] \<and> isNew t)"
  "status_modified (save_tx e t) = (transactionId t = [] \<and> status_modified t)"
  by (simp_all add: save_tx_def validation_rejects_def hook_defs)

lemma createdAt_save_tx:
  "t_createdAt (save_tx e t) =
     (if transactionId t \<noteq> [] \<and> isNew t then now e else t_createdAt t)"
  by (simp add: save_tx_def validation_rejects_def hook_defs)

lemma fees_save_tx:
  "transactionId t \<noteq> [] \<Longrightarrow>
   fees (save_tx e t) =
     (fees t)\<lparr>fee_total := fee_platform (fees t) + fee_payment (fees t) + fee_withdrawal (fees t)\<rparr>"
  by (simp add: save_tx_def validation_rejects_def hook_defs)

lemma statusHistory_save_tx:
  "statusHistory (save_tx e t) =
     statusHistory t @ (if status_modified t \<and> \<not> isNew t \<and> transactionId t \<noteq> []
                        then [hook_entry e (status t)] else [])"
  by (simp add: save_tx_def validation_rejects_def hook_defs)

text \<open>A save of a document without a transaction id is rejected, whatever else it holds.\<close>

lemma await_save_rejected: "transactionId t = [] \<Longrightarrow> await_save e t = Inl ValidationError"
  by (simp add: await_save_def validation_rejects_def)

lemma await_save_stored: "transactionId t \<noteq> [] \<Longrightarrow> await_save e t = Inr (save_tx e t)"
  by (simp add: await_save_def validation_rejects_def)

lemma addLog_fields [simp]:
  "status (addLog e a s m t) = status t"
  "amount (addLog e a s m t) = amount t"
  "t_type (addLog e a s m t) = t_type t"
  "t_userId (addLog e a s m t) = t_userId t"
  "gatewayTransactionId (addLog e a s m t) = gatewayTransactionId t"
  "retryCount (addLog e a s m t) = retryCount t"
  "maxRetries (addLog e a s m t) = maxRetries t"
  "nextRetry (addLog e a s m t) = nextRetry t"
  "transactionId (addLog e a s m t) = transactionId t"
  "isNew (addLog e a s m t) = (transactionId t = [] \<and> isNew t)"
  "status_modified (addLog e a s m t) = (transactionId t = [] \<and> status_modified t)"
  by (simp_all add: addLog_def)

lemma statusHistory_addLog:
  "statusHistory (addLog e a s m t) =
     statusHistory t @ (if status_modified t \<and> \<not> isNew t \<and> transactionId t \<noteq> []
                        then [hook_entry e (status t)] else [])"
  by (simp add: addLog_def statusHistory_save_tx)

lemma set_status_fields [simp]:
  "status (set_status s t) = s"
  "amount (set_status s t) = amount t"
  "t_type (set_status s t) = t_type t"
  "t_userId (set_status s t) = t_userId t"
  "t_gameId (set_status s t) = t_gameId t"
  "gatewayTransactionId (set_status s t) = gatewayTransactionId t"
  "retryCount (set_status s t) = retryCount t"
  "maxRetries (set_status s t) = maxRetries t"
  "nextRetry (set_status s t) = nextRetry t"
  "transactionId (set_status s t) = transactionId t"
  "statusHistory (set_status s t) = statusHistory t"
  "isNew (set_status s t) = isNew t"
  "status_modified (set_status s t) = (status_modified t \<or> isNew t \<or> status t \<noteq> s)"
  by (simp_all add: set_status_def)

lemma markCompleted_fields [simp]:
  "status (markCompleted e t) = Completed"
  "amount (markCompleted e t) = amount t"
  "t_type (markCompleted e t) = t_type t"
  "t_userId (markCompleted e t) = t_userId t"
  "gatewayTransactionId (markCompleted e t) = gatewayTransactionId t"
  "transactionId (markCompleted e t) = transactionId t"
  by (simp_all add: markCompleted_def)

lemma statusHistory_markCompleted:
  "statusHistory (markCompleted e t) =
     statusHistory t @ (if (status_modified t \<or> status t \<noteq> Completed) \<and> \<not> isNew t
                           \<and> transactionId t \<noteq> []
                        then [hook_entry e Completed] else [])"
  by (auto simp add: markCompleted_def statusHistory_addLog)

lemma statusHistory_updateStatus:
  "statusHistory (updateStatus e s r by t) =
     statusHistory t @ explicit_entry e (status t) s r by
       # (if (status_modified t \<or> status t \<noteq> s) \<and> \<not> isNew t \<and> transactionId t \<noteq> []
          then [hook_entry e s] else [])"
  by (auto simp add: updateStatus_def statusHistory_addLog)

lemma status_updateStatus: "status (updateStatus e s r by t) = s"
  by (simp add: updateStatus_def)

lemma schedule_retry_fields [simp]:
  "status (schedule_retry e t) = status t"
  "statusHistory (schedule_retry e t) = statusHistory t"
  "isNew (schedule_retry e t) = isNew t"
  "status_modified (schedule_retry e t) = status_modified t"
  "maxRetries (schedule_retry e t) = maxRetries t"
  "transactionId (schedule_retry e t) = transactionId t"
  by (simp_all add: schedule_retry_def)

lemma markFailed_status [simp]: "status (markFailed e r t) = Failed"
  by (simp add: markFailed_def)

lemma markFailed_retry:
  "retryCount (markFailed e r t) =
     (if retryCount t < maxRetries t then retryCount t + 1 else retryCount t)"
  "nextRetry (markFailed e r t) =
     (if retryCount t < maxRetries t then Some (now e + (retryCount t + 1) * 30 * 60 * 1000)
      else nextRetry t)"
  by (simp_all add: markFailed_def schedule_retry_def canRetry_def isFailed_def)

lemma statusHistory_markFailed:
  "statusHistory (markFailed e r t) =
     statusHistory t @ (if (status_modified t \<or> status t \<noteq> Failed) \<and> \<not> isNew t
                           \<and> transactionId t \<noteq> []
                        then [hook_entry e Failed] else [])"
  by (auto simp add: markFailed_def statusHistory_addLog)

lemma fees_calculateFees:
  "fees (calculateFees e t) =
     (fees_for e t)\<lparr>fee_total := fee_platform (fees_for e t) + fee_payment (fees_for e t)
                                  + fee_withdrawal (fees_for e t)\<rparr>"
  "amount (calculateFees e t) = amount t"
  by (simp_all add: calculateFees_def)

lemma example_env_fields [simp]:
  "withdrawalFeeRate example_env = 5 / 100"
  "coinPerPoint example_env = 1 / 1000"
  "minWithdrawal example_env = 10"
  "now example_env = 1700000000000"
  by (simp_all add: withdrawalFeeRate_def coinPerPoint_def minWithdrawal_def env_or_def
      example_env_def)

text \<open>
  The documents of the three creation sites. None of them carries a transaction id, so
  the save of each is rejected.
\<close>

lemma withdrawal_document_fields [simp]:
  "status (withdrawal_document e uid a m ai) = Pending"
  "t_type (withdrawal_document e uid a m ai) = Withdrawal"
  "t_userId (withdrawal_document e uid a m ai) = uid"
  "amount (withdrawal_document e uid a m ai) = a - a * withdrawalFeeRate e"
  "retryCount (withdrawal_document e uid a m ai) = 0"
  "maxRetries (withdrawal_document e uid a m ai) = 3"
  "nextRetry (withdrawal_document e uid a m ai) = None"
  "statusHistory (withdrawal_document e uid a m ai) = []"
  "transactionId (withdrawal_document e uid a m ai) = []"
  "isNew (withdrawal_document e uid a m ai) = True"
  "status_modified (withdrawal_document e uid a m ai) = False"
  by (simp_all add: withdrawal_document_def Let_def new_transaction_def zero_fees_def)

lemma fees_withdrawal_document:
  "fees (withdrawal_document e uid a m ai) =
     \<lparr>fee_platform = 0, fee_payment = 0, fee_withdrawal = a * withdrawalFeeRate e,
      fee_total = a * withdrawalFeeRate e\<rparr>"
  by (simp add: withdrawal_document_def Let_def new_transaction_def zero_fees_def)

lemma createWithdrawal_rejected: "createWithdrawal e uid a m ai = Inl ValidationError"
  by (simp add: createWithdrawal_def await_save_rejected)

lemma game_reward_document_fields [simp]:
  "t_type (game_reward_document uid gid a) = GameReward"
  "status (game_reward_document uid gid a) = Completed"
  "amount (game_reward_document uid gid a) = a"
  "t_userId (game_reward_document uid gid a) = uid"
  "t_gameId (game_reward_document uid gid a) = Some gid"
  "transactionId (game_reward_document uid gid a) = []"
  by (simp_all add: game_reward_document_def new_transaction_def)

lemma createGameReward_rejected: "createGameReward e uid gid a = Inl ValidationError"
  by (simp add: createGameReward_def await_save_rejected)

lemma deposit_document_fields [simp]:
  "status (deposit_document uid a c intent) = Processing"
  "t_type (deposit_document uid a c intent) = Deposit"
  "amount (deposit_document uid a c intent) = a"
  "t_userId (deposit_document uid a c intent) = uid"
  "gatewayTransactionId (deposit_document uid a c intent) = Some (pi_id intent)"
  "transactionId (deposit_document uid a c intent) = []"
  by (simp_all add: deposit_document_def new_transaction_def)

text \<open>The stored withdrawals of the examples.\<close>

lemma stored_withdrawal_fields [simp]:
  "t_userId (stored_withdrawal tid) = 0"
  "t_type (stored_withdrawal tid) = Withdrawal"
  "status (stored_withdrawal tid) = Pending"
  "amount (stored_withdrawal tid) = 950"
  "retryCount (stored_withdrawal tid) = 0"
  "maxRetries (stored_withdrawal tid) = 3"
  "transactionId (stored_withdrawal tid) = tid"
  by (simp_all add: stored_withdrawal_def)

lemma stored_withdrawal_tracking [simp]:
  "tid \<noteq> [] \<Longrightarrow> statusHistory (stored_withdrawal tid) = []"
  "tid \<noteq> [] \<Longrightarrow> isNew (stored_withdrawal tid) = False"
  "tid \<noteq> [] \<Longrightarrow> status_modified (stored_withdrawal tid) = False"
  "tid \<noteq> [] \<Longrightarrow> t_createdAt (stored_withdrawal tid) = 1700000000000"
  by (simp_all add: stored_withdrawal_def statusHistory_save_tx createdAt_save_tx)

lemma example_withdrawal_fields [simp]:
  "t_userId example_withdrawal = 0"
  "t_type example_withdrawal = Withdrawal"
  "status example_withdrawal = Pending"
  "amount example_withdrawal = 950"
  "retryCount example_withdrawal = 0"
  "maxRetries example_withdrawal = 3"
  "transactionId example_withdrawal = ''WD1''"
  "statusHistory example_withdrawal = []"
  "isNew example_withdrawal = False"
  "status_modified example_withdrawal = False"
  "t_createdAt example_withdrawal = 1700000000000"
  by (simp_all add: example_withdrawal_def)

section \<open>The balance is credits minus debits, clamped\<close>

lemma balance_step_signed: "balance_step b (k, v) = b + signed k v"
  by (simp add: balance_step_def signed_def)

lemma foldl_balance_step:
  "foldl balance_step b gs = b + sum_list (map (\<lambda>(k, v). signed k v) gs)"
  by (induction gs arbitrary: b) (auto simp: balance_step_signed)

lemma signed_add: "signed k (s + v) = signed k s + signed k v"
  by (simp add: signed_def)

lemma sum_add_to_group:
  "sum_list (map (\<lambda>(k, v). signed k v) (add_to_group k v gs))
     = sum_list (map (\<lambda>(k, v). signed k v) gs) + signed k v"
  by (induction gs) (auto simp: signed_add)

lemma sum_group_by_type:
  "sum_list (map (\<lambda>(k, v). signed k v) (group_by_type txs))
     = sum_list (map (\<lambda>t. signed (t_type t) (amount t)) txs)"
  unfolding group_by_type_def
  by (induction txs rule: rev_induct) (auto simp: sum_add_to_group)

lemma signed_split:
  "sum_list (map (\<lambda>t. signed (t_type t) (amount t)) txs)
     = sum_list (map amount (filter (\<lambda>t. t_type t \<in> set credit_types) txs))
       - sum_list (map amount (filter (\<lambda>t. t_type t \<in> set debit_types) txs))"
  by (induction txs) (auto simp: signed_def credit_types_def debit_types_def)

lemma balance_raw:
  "foldl balance_step 0 (group_by_type (match_completed uid txs))
     = completed_credits uid txs - completed_debits uid txs"
  by (simp add: foldl_balance_step sum_group_by_type signed_split match_completed_def
      completed_credits_def completed_debits_def conj_commute conj_left_commute)

text \<open>
  C1. For every user and every ledger, \<open>getUserBalance\<close> is the sum of the amounts of the
  user's completed transactions of a credit type (game reward, deposit, bonus, referral,
  refund) minus the sum over the completed ones of a debit type (withdrawal, penalty, fee,
  purchase), and never below 0.
\<close>

theorem getUserBalance_credits_minus_debits:
  "getUserBalance uid txs = max 0 (completed_credits uid txs - completed_debits uid txs)
   \<and> getUserBalance uid txs \<ge> 0"
  by (simp add: getUserBalance_def balance_raw)

theorem getUserBalance_credits_minus_debits_witness:
  "getUserBalance 0 [example_bonus, example_withdrawal] = 5000
   \<and> completed_credits 0 [example_bonus, example_withdrawal] = 5000
   \<and> completed_debits 0 [example_bonus, example_withdrawal] = 0"
proof -
  have b: "t_userId example_bonus = 0" "status example_bonus = Completed"
    "t_type example_bonus = Bonus" "amount example_bonus = 5000"
    by (simp_all add: example_bonus_def new_transaction_def)
  have w: "status example_withdrawal = Pending"
    by simp
  have "completed_credits 0 [example_bonus, example_withdrawal] = 5000"
    "completed_debits 0 [example_bonus, example_withdrawal] = 0"
    by (simp_all add: completed_credits_def completed_debits_def credit_types_def
        debit_types_def b w)
  then show ?thesis
    using getUserBalance_credits_minus_debits [of 0 "[example_bonus, example_withdrawal]"]
    by simp
qed

section \<open>Status changes and their history\<close>

text \<open>
  C4, as the code has it. \<open>updateStatus\<close> carries out every requested status change:
  whatever the current status and the requested one, the status afterwards is the
  requested one, and the history holds the entry from the old status to the new one.
  No transition is refused.
\<close>

theorem updateStatus_accepts_every_transition:
  "status (updateStatus e s r by t) = s
   \<and> explicit_entry e (status t) s r by \<in> set (statusHistory (updateStatus e s r by t))"
  by (simp add: status_updateStatus statusHistory_updateStatus)

theorem updateStatus_accepts_every_transition_witness:
  "status (updateStatus example_env Processing ''approve'' (Some 1) example_withdrawal) = Processing
   \<and> explicit_entry example_env Pending Processing ''approve'' (Some 1)
       \<in> set (statusHistory (updateStatus example_env Processing ''approve'' (Some 1)
                 example_withdrawal))"
  using updateStatus_accepts_every_transition
    [of example_env Processing "''approve''" "Some 1" example_withdrawal]
  by simp

text \<open>
  The transition from completed to pending is not in the specification's set, and
  \<open>updateStatus\<close> performs it: the status of a completed transaction becomes pending.
\<close>

theorem updateStatus_illegal_transition_counterexample:
  "\<not> spec_legal_transition Completed Pending
   \<and> status (markCompleted example_env example_withdrawal) = Completed
   \<and> status (updateStatus example_env Pending ''reopen'' None
               (markCompleted example_env example_withdrawal)) = Pending"
  by (simp add: spec_legal_transition_def status_updateStatus)

text \<open>
  C5, at two stored transactions. Rejecting the pending example withdrawal through
  \<open>updateStatus\<close> appends two entries for the one transition: the explicit one and the
  one of the save hook. Marking the same withdrawal failed appends the hook's entry
  alone, whose \<open>from\<close> is \<open>'unknown'\<close> and not the previous status \<open>pending\<close>.
\<close>

theorem statusHistory_entries_of_one_transition:
  "statusHistory (updateStatus example_env Cancelled ''Rejected by admin'' (Some 1)
                    example_withdrawal)
     = [explicit_entry example_env Pending Cancelled ''Rejected by admin'' (Some 1),
        hook_entry example_env Cancelled]
   \<and> statusHistory (markFailed example_env ''Transfer failed'' example_withdrawal)
     = [hook_entry example_env Failed]
   \<and> h_from (hook_entry example_env Failed) = None
   \<and> status example_withdrawal = Pending"
  by (simp add: statusHistory_updateStatus statusHistory_markFailed hook_entry_def)

text \<open>
  The history only grows: each operation on a transaction keeps the entries it found, in
  their order, as a prefix of the new history.
\<close>

lemma statusHistory_append_only:
  "\<exists>new. statusHistory (updateStatus e s r by t) = statusHistory t @ new"
  "\<exists>new. statusHistory (markCompleted e t) = statusHistory t @ new"
  "\<exists>new. statusHistory (markFailed e r t) = statusHistory t @ new"
  "\<exists>new. statusHistory (addLog e a st m t) = statusHistory t @ new"
  "\<exists>new. statusHistory (save_tx e t) = statusHistory t @ new"
  by (simp_all add: statusHistory_updateStatus statusHistory_markCompleted
      statusHistory_markFailed statusHistory_addLog statusHistory_save_tx)

section \<open>Fees\<close>

text \<open>
  C6, as the code has it. \<open>calculateFees\<close> on a withdrawal transaction stores the
  withdrawal fee amount times the rate (5 percent unless configured), the payment fee of
  the gateway table (Stripe: the larger of 0.30 and 2.9 percent of the amount; ePCM: 2.5
  percent of the amount, with no minimum; otherwise none), their sum as the total, and
  the net amount is the amount minus that total.
\<close>

theorem calculateFees_withdrawal:
  "t_type t = Withdrawal \<Longrightarrow>
     fee_withdrawal (fees (calculateFees e t)) = amount t * withdrawalFeeRate e
     \<and> fee_payment (fees (calculateFees e t)) =
         (if t_gateway t = Some Stripe then max (30 / 100) (amount t * (29 / 1000))
          else if t_gateway t = Some Epcm then amount t * (25 / 1000)
          else 0)
     \<and> fee_total (fees (calculateFees e t)) =
         fee_withdrawal (fees (calculateFees e t)) + fee_payment (fees (calculateFees e t))
     \<and> netAmount (calculateFees e t) = amount t - fee_total (fees (calculateFees e t))
     \<and> (WITHDRAWAL_FEE e = None \<longrightarrow> withdrawalFeeRate e = 5 / 100)"
  by (simp add: fees_calculateFees fees_for_def zero_fees_def stripe_fee_def netAmount_def
      withdrawalFeeRate_def env_or_def)

text \<open>At amount 1000 on the bank gateway: 50, 25, 75 and 925.\<close>

theorem calculateFees_withdrawal_witness:
  "t_type example_fee_input = Withdrawal
   \<and> WITHDRAWAL_FEE example_env = None
   \<and> fee_withdrawal (fees (calculateFees example_env example_fee_input)) = 50
   \<and> fee_payment (fees (calculateFees example_env example_fee_input)) = 25
   \<and> fee_total (fees (calculateFees example_env example_fee_input)) = 75
   \<and> netAmount (calculateFees example_env example_fee_input) = 925"
proof -
  have ty: "t_type example_fee_input = Withdrawal"
    by (simp add: example_fee_input_def new_transaction_def)
  have gw: "t_gateway example_fee_input = Some Epcm" and am: "amount example_fee_input = 1000"
    by (simp_all add: example_fee_input_def new_transaction_def)
  have ev: "WITHDRAWAL_FEE example_env = None"
    by (simp add: example_env_def)
  show ?thesis
    using calculateFees_withdrawal [OF ty, of example_env] ty gw am ev
    by simp
qed

text \<open>
  A withdrawal request does not go through \<open>calculateFees\<close>. For a request of 1000 units
  by bank transfer, \<open>createWithdrawal\<close> computes the withdrawal fee alone: the document it
  builds has no payment fee, a fee total of 50 and a net amount of 900, not 25, 75 and
  925; and the call ends in the rejection of that document's save.
\<close>

theorem withdrawal_request_fees_counterexample:
  "fee_withdrawal (fees (withdrawal_document example_env 0 1000 BankTransfer
                           \<lparr>ai_address = None\<rparr>)) = 50
   \<and> fee_payment (fees (withdrawal_document example_env 0 1000 BankTransfer
                          \<lparr>ai_address = None\<rparr>)) = 0
   \<and> fee_total (fees (withdrawal_document example_env 0 1000 BankTransfer
                        \<lparr>ai_address = None\<rparr>)) = 50
   \<and> netAmount (withdrawal_document example_env 0 1000 BankTransfer \<lparr>ai_address = None\<rparr>) = 900
   \<and> createWithdrawal example_env 0 1000 BankTransfer \<lparr>ai_address = None\<rparr>
       = Inl ValidationError"
  by (simp add: fees_withdrawal_document netAmount_def createWithdrawal_rejected)

section \<open>Users, the store and the withdrawal flow\<close>

lemma save_user_fields [simp]:
  "coins_available (save_user u) = coins_available u"
  "coins_pending (save_user u) = coins_pending u"
  "coins_total (save_user u) = coins_total u"
  "experience (save_user u) = experience u"
  "kyc (save_user u) = kyc u"
  "u_status (save_user u) = u_status u"
  "loginHistory (save_user u) = loginHistory u"
  "u_createdAt (save_user u) = u_createdAt u"
  by (simp_all add: save_user_def Let_def)

lemma addCoins_fields [simp]:
  "coins_available (addCoins a u) = coins_available u + a"
  "coins_total (addCoins a u) = coins_total u + a"
  "coins_pending (addCoins a u) = coins_pending u"
  by (simp_all add: addCoins_def)

lemma addExperience_fields [simp]:
  "coins_available (addExperience x u) = coins_available u"
  "coins_total (addExperience x u) = coins_total u"
  "coins_pending (addExperience x u) = coins_pending u"
  by (simp_all add: addExperience_def)


lemma db_fields [simp]:
  "users (put_user uid u d) = (users d)[uid := u]"
  "transactions (put_user uid u d) = transactions d"
  "games (put_user uid u d) = games d"
  "users (put_transaction i t d) = users d"
  "transactions (put_transaction i t d) = (transactions d)[i := t]"
  "games (put_transaction i t d) = games d"
  "users (insert_transaction t d) = users d"
  "transactions (insert_transaction t d) = transactions d @ [t]"
  "games (insert_transaction t d) = games d"
  "users (put_game i g d) = users d"
  "transactions (put_game i g d) = transactions d"
  "games (put_game i g d) = (games d)[i := g]"
  by (simp_all add: put_user_def put_transaction_def insert_transaction_def put_game_def)

lemma findById_put_user: "findById d uid = Some u \<Longrightarrow> findById (put_user uid v d) uid = Some v"
  by (simp add: findById_def split: if_splits)

text \<open>
  The failure branch of \<open>processWithdrawal\<close>, on a transaction and a user as the earlier
  steps would hand them over: the transaction is marked failed, the amount goes back from
  \<open>pending\<close> to \<open>available\<close>, and a retry is counted and scheduled while the count is below
  the maximum.
\<close>

lemma settle_failure_fields:
  "status (fst (settle_failure e err a t u)) = Failed"
  "coins_available (snd (settle_failure e err a t u)) = coins_available u + a"
  "coins_pending (snd (settle_failure e err a t u)) = coins_pending u - a"
  "coins_total (snd (settle_failure e err a t u)) = coins_total u"
  "retryCount (fst (settle_failure e err a t u)) =
     (if retryCount t < maxRetries t then retryCount t + 1 else retryCount t)"
  "nextRetry (fst (settle_failure e err a t u)) =
     (if retryCount t < maxRetries t then Some (now e + (retryCount t + 1) * 30 * 60 * 1000)
      else nextRetry t)"
  by (simp_all add: settle_failure_def markFailed_retry)

text \<open>
  No call of \<open>processWithdrawal\<close> gets that far. A request that passes the checks of the
  user and of the balance ends in the exception of \<open>createWithdrawal\<close>, with the store
  untouched; and every call returns an error and the store as it found it.
\<close>

lemma processWithdrawal_rejected:
  assumes "findById d uid = Some u"
      and "canWithdraw e a u"
      and "a \<le> getUserBalance uid (transactions d)"
  shows "processWithdrawal e bank_reply uid a method ai d = (Inl ValidationError, d)"
  using assms by (simp add: processWithdrawal_def createWithdrawal_rejected)

lemma processWithdrawal_never_settles:
  "\<exists>err. processWithdrawal e bank_reply uid a method ai d = (Inl err, d)"
  by (simp add: processWithdrawal_def createWithdrawal_rejected split: option.split)

text \<open>The example store, field by field.\<close>

lemma example_store_fields [simp]:
  "users example_store = [example_user]"
  "transactions example_store = [example_bonus]"
  "games example_store = [example_session]"
  by (simp_all add: example_store_def)

lemma example_user_fields [simp]:
  "coins_available example_user = 5000"
  "coins_pending example_user = 0"
  "coins_total example_user = 5000"
  "kyc example_user = KycVerified"
  "u_status example_user = AccountActive"
  "accountLocked example_user = False"
  "loginHistory example_user = [\<lparr>login_location = Some ''SG''\<rparr>]"
  "u_createdAt example_user = 1700000000000 - 3 * 24 * 60 * 60 * 1000"
  by (simp_all add: example_user_def)

lemma example_bonus_fields [simp]:
  "t_userId example_bonus = 0"
  "status example_bonus = Completed"
  "t_type example_bonus = Bonus"
  "amount example_bonus = 5000"
  "gatewayTransactionId example_bonus = None"
  "t_createdAt example_bonus = 1699900000000"
  by (simp_all add: example_bonus_def new_transaction_def)

lemma example_store_balance [simp]: "getUserBalance 0 [example_bonus] = 5000"
  by (simp add: getUserBalance_def balance_raw completed_credits_def completed_debits_def
      credit_types_def debit_types_def)


section \<open>Deposits and the gateway success notification\<close>

lemma findOne_index_Some:
  "findOne_index P xs = Some i \<longleftrightarrow> i < length xs \<and> P (xs ! i) \<and> (\<forall>j<i. \<not> P (xs ! j))"
proof (induction xs arbitrary: i)
  case Nil
  then show ?case by simp
next
  case (Cons x xs)
  show ?case
  proof (cases "P x")
    case True
    then show ?thesis by (cases i) auto
  next
    case False
    show ?thesis
    proof (cases i)
      case 0
      with False show ?thesis by simp
    next
      case (Suc k)
      with False Cons.IH [of k] show ?thesis
        by (auto simp: less_Suc_eq_0_disj)
    qed
  qed
qed

lemma findOne_index_None: "findOne_index P xs = None \<longleftrightarrow> (\<forall>x \<in> set xs. \<not> P x)"
  by (induction xs) auto

lemma findOne_index_update:
  assumes "findOne_index P xs = Some i" and "P y"
  shows "findOne_index P (xs[i := y]) = Some i"
proof -
  from assms(1) have i: "i < length xs" and before: "\<forall>j<i. \<not> P (xs ! j)"
    by (simp_all add: findOne_index_Some)
  then show ?thesis
    using assms(2) by (simp add: findOne_index_Some)
qed

lemma credit_deposit_transactions [simp]:
  "transactions (snd (credit_deposit t d)) = transactions d"
  by (simp add: credit_deposit_def Let_def split: option.split)

lemma handlePaymentSuccess_not_processing:
  assumes "findOne_index (\<lambda>t. gatewayTransactionId t = Some pid) (transactions d) = Some i"
      and "status (transactions d ! i) \<noteq> Processing"
  shows "handlePaymentSuccess e pid d = (Inr (), d)"
  using assms by (simp add: handlePaymentSuccess_def)

lemma handlePaymentSuccess_after:
  "handlePaymentSuccess e2 pid (snd (handlePaymentSuccess e1 pid d))
     = (Inr (), snd (handlePaymentSuccess e1 pid d))"
proof (cases "findOne_index (\<lambda>t. gatewayTransactionId t = Some pid) (transactions d)")
  case None
  then show ?thesis by (simp add: handlePaymentSuccess_def)
next
  case (Some i)
  show ?thesis
  proof (cases "status (transactions d ! i) = Processing")
    case False
    with Some show ?thesis by (simp add: handlePaymentSuccess_def)
  next
    case True
    let ?t = "markCompleted e1 (transactions d ! i)"
    let ?d1 = "snd (handlePaymentSuccess e1 pid d)"
    from Some have i: "i < length (transactions d)"
      and hit: "gatewayTransactionId (transactions d ! i) = Some pid"
      by (simp_all add: findOne_index_Some)
    have txs: "transactions ?d1 = (transactions d)[i := ?t]"
      using Some True by (simp add: handlePaymentSuccess_def)
    have idx: "findOne_index (\<lambda>t. gatewayTransactionId t = Some pid) (transactions ?d1) = Some i"
      unfolding txs using Some hit by (intro findOne_index_update) simp_all
    have st: "status (transactions ?d1 ! i) \<noteq> Processing"
      unfolding txs using i by simp
    show ?thesis
      by (rule handlePaymentSuccess_not_processing [OF idx st])
  qed
qed

text \<open>
  C9. The success handler acts only on a transaction whose status is still processing:
  when the transaction found for the payment intent is in any other status (completed, for
  one), the call changes nothing. So a second delivery of the same notification, after a
  first one on any store, returns with the store as the first delivery left it: the
  transaction is not completed again and no wallet is credited again.
\<close>

theorem handlePaymentSuccess_idempotent:
  "(findOne_index (\<lambda>t. gatewayTransactionId t = Some pid) (transactions d) = Some i
      \<and> status (transactions d ! i) \<noteq> Processing
    \<longrightarrow> handlePaymentSuccess e pid d = (Inr (), d))
   \<and> handlePaymentSuccess eb pid (snd (handlePaymentSuccess ea pid d0))
       = (Inr (), snd (handlePaymentSuccess ea pid d0))"
  using handlePaymentSuccess_not_processing handlePaymentSuccess_after by blast

lemma handlePaymentSuccess_deposit:
  assumes idx: "findOne_index (\<lambda>t. gatewayTransactionId t = Some pid) (transactions d) = Some i"
      and st: "status (transactions d ! i) = Processing"
      and ty: "t_type (transactions d ! i) = Deposit"
      and u: "findById d (t_userId (transactions d ! i)) = Some u"
  shows "handlePaymentSuccess e pid d =
           (Inr (), put_user (t_userId (transactions d ! i))
                      (addCoins (amount (transactions d ! i) * 100) u)
                      (put_transaction i (markCompleted e (transactions d ! i)) d))"
  using assms
  by (auto simp add: handlePaymentSuccess_def credit_deposit_def Let_def findById_def
      split: if_splits)

text \<open>
  The success notification for a stored deposit that is still processing credits the
  owner's \<open>coins.available\<close> and \<open>coins.total\<close> by the amount times 100 each.
\<close>

lemma handlePaymentSuccess_credits_hundredfold:
  assumes idx: "findOne_index (\<lambda>t. gatewayTransactionId t = Some pid) (transactions d) = Some i"
      and st: "status (transactions d ! i) = Processing"
      and ty: "t_type (transactions d ! i) = Deposit"
      and u: "findById d (t_userId (transactions d ! i)) = Some u"
  shows "map_option coins_available
           (findById (snd (handlePaymentSuccess e pid d)) (t_userId (transactions d ! i)))
         = Some (coins_available u + amount (transactions d ! i) * 100)"
    and "map_option coins_total
           (findById (snd (handlePaymentSuccess e pid d)) (t_userId (transactions d ! i)))
         = Some (coins_total u + amount (transactions d ! i) * 100)"
  using u by (simp_all add: handlePaymentSuccess_deposit [OF assms] findById_def split: if_splits)

text \<open>
  \<open>processDeposit\<close> of an existing user whose payment intent Stripe has created ends in
  the rejection of the new transaction's save, whatever the status of the intent.
\<close>

lemma processDeposit_rejected:
  assumes "findById d uid = Some u"
  shows "processDeposit e (Inr intent) uid a c d = (Inl ValidationError, d)"
  using assms by (simp add: processDeposit_def await_save_rejected)

lemma example_deposit_fields [simp]:
  "status example_deposit = Processing"
  "t_type example_deposit = Deposit"
  "amount example_deposit = 50"
  "t_userId example_deposit = 0"
  "gatewayTransactionId example_deposit = Some ''pi_1''"
  "transactionId example_deposit = ''DP1''"
  "isNew example_deposit = False"
  by (simp_all add: example_deposit_def)

lemma example_deposit_store_fields [simp]:
  "users example_deposit_store = [example_user]"
  "transactions example_deposit_store = [example_bonus, example_deposit]"
  by (simp_all add: example_deposit_store_def)

lemma example_deposit_found:
  "findOne_index (\<lambda>t. gatewayTransactionId t = Some ''pi_1'') (transactions example_deposit_store)
     = Some 1"
  by simp

lemma example_webhook_store_eq:
  "example_webhook_store =
     put_user 0 (addCoins (50 * 100) example_user)
       (put_transaction 1 (markCompleted example_env example_deposit) example_deposit_store)"
proof -
  have "handlePaymentSuccess example_env ''pi_1'' example_deposit_store =
          (Inr (), put_user (t_userId (transactions example_deposit_store ! 1))
                     (addCoins (amount (transactions example_deposit_store ! 1) * 100) example_user)
                     (put_transaction 1
                        (markCompleted example_env (transactions example_deposit_store ! 1))
                        example_deposit_store))"
    by (rule handlePaymentSuccess_deposit [OF example_deposit_found])
       (simp_all add: findById_def)
  then show ?thesis
    by (simp add: example_webhook_store_def)
qed

theorem handlePaymentSuccess_idempotent_witness:
  "findOne_index (\<lambda>t. gatewayTransactionId t = Some ''pi_1'') (transactions example_webhook_store)
     = Some 1
   \<and> status (transactions example_webhook_store ! 1) = Completed
   \<and> handlePaymentSuccess example_env ''pi_1'' example_webhook_store
       = (Inr (), example_webhook_store)
   \<and> map_option coins_available (findById example_webhook_store 0) = Some 10000"
proof -
  have idx: "findOne_index (\<lambda>t. gatewayTransactionId t = Some ''pi_1'')
               (transactions example_webhook_store) = Some 1"
    by (simp add: example_webhook_store_eq)
  have st: "status (transactions example_webhook_store ! 1) = Completed"
    by (simp add: example_webhook_store_eq)
  have coins: "map_option coins_available (findById example_webhook_store 0) = Some 10000"
    by (simp add: example_webhook_store_eq findById_def)
  show ?thesis
    using handlePaymentSuccess_idempotent
      [where pid = "''pi_1''" and d = example_webhook_store and i = 1 and e = example_env
         and eb = example_env and ea = example_env and ?d0.0 = example_deposit_store]
      idx st coins
    by simp
qed

text \<open>
  C10, at the example store. The example user deposits 50 USD and Stripe returns a
  payment intent that has succeeded at once. \<open>processDeposit\<close> does not reach
  \<open>markCompleted\<close> and \<open>addCoins\<close>: the save of the new deposit transaction is rejected,
  the call throws, and the store is as before, with \<open>coins.available\<close> and \<open>coins.total\<close>
  still at 5000 and not at 10000.
\<close>

theorem processDeposit_stops_before_credit:
  "processDeposit example_env (Inr \<lparr>pi_id = ''pi_2'', pi_status = Succeeded\<rparr>) 0 50 USD
       example_store
     = (Inl ValidationError, example_store)
   \<and> map_option coins_available
       (findById (snd (processDeposit example_env
                         (Inr \<lparr>pi_id = ''pi_2'', pi_status = Succeeded\<rparr>) 0 50 USD
                         example_store)) 0) = Some 5000
   \<and> map_option coins_total
       (findById (snd (processDeposit example_env
                         (Inr \<lparr>pi_id = ''pi_2'', pi_status = Succeeded\<rparr>) 0 50 USD
                         example_store)) 0) = Some 5000"
proof -
  have h1: "findById example_store 0 = Some example_user"
    by (simp add: findById_def)
  show ?thesis
    by (simp add: processDeposit_rejected [OF h1] h1)
qed

section \<open>Reward settlement\<close>

lemmas game_hook_defs = pre_save_game_def calc_duration_def calc_rewards_def calc_totalScore_def
  set_totalScore_def calc_accuracy_def

lemma save_game_fields [simp]:
  "sessionId (save_game e g) = sessionId g"
  "g_userId (save_game e g) = g_userId g"
  "session_status (save_game e g) = session_status g"
  "claimed (save_game e g) = claimed g"
  "achievements (save_game e g) = achievements g"
  "bonusCoins (save_game e g) = bonusCoins g"
  "totalScore (save_game e g) = baseScore g + comboBonus g + accuracyBonus g + speedBonus g"
  by (simp_all add: save_game_def game_hook_defs split: option.split)

lemma save_game_rewards:
  "rw_coins (save_game e g) =
     (if totalScore_modified g \<or> g_isNew g
         \<or> totalScore g \<noteq> baseScore g + comboBonus g + accuracyBonus g + speedBonus g
      then of_int \<lfloor>(baseScore g + comboBonus g + accuracyBonus g + speedBonus g) * coinPerPoint e\<rfloor>
      else rw_coins g)"
  "rw_experience (save_game e g) =
     (if totalScore_modified g \<or> g_isNew g
         \<or> totalScore g \<noteq> baseScore g + comboBonus g + accuracyBonus g + speedBonus g
      then of_int \<lfloor>(baseScore g + comboBonus g + accuracyBonus g + speedBonus g) / 100\<rfloor>
      else rw_experience g)"
  by (simp_all add: save_game_def game_hook_defs split: option.split)

lemma foldl_add_achievement_reward:
  "foldl add_achievement_reward (c, x) as =
     (c + sum_list (map achievement_coins as), x + sum_list (map achievement_experience as))"
  by (induction as arbitrary: c x)
     (auto simp: add_achievement_reward_def achievement_coins_def achievement_experience_def
           split: option.split)

lemma claim_totals_eq:
  "claim_totals g =
     (rw_coins g + bonusCoins g + sum_list (map achievement_coins (achievements g)),
      rw_experience g + sum_list (map achievement_experience (achievements g)))"
  by (simp add: claim_totals_def foldl_add_achievement_reward)

lemma claim_data_fields [simp]:
  "rd_coins (claim_data g) = rw_coins g + bonusCoins g + sum_list (map achievement_coins (achievements g))"
  "rd_experience (claim_data g) =
     rw_experience g + sum_list (map achievement_experience (achievements g))"
  by (simp_all add: claim_data_def claim_totals_eq)

lemma game_claimRewards_claimed: "claimed g \<Longrightarrow> game_claimRewards e g = Inl RewardsAlreadyClaimed"
  by (simp add: game_claimRewards_def)

lemma game_claimRewards_unclaimed:
  "\<not> claimed g \<Longrightarrow> game_claimRewards e g = Inr (claim_data g, claimed_game e g)"
  by (simp add: game_claimRewards_def claim_data_def claimed_game_def)

lemma claimed_game_fields [simp]:
  "sessionId (claimed_game e g) = sessionId g"
  "g_userId (claimed_game e g) = g_userId g"
  "session_status (claimed_game e g) = session_status g"
  "claimed (claimed_game e g) = True"
  by (simp_all add: claimed_game_def)

lemma findById_other [simp]:
  "findById (put_game i g d) uid = findById d uid"
  "findById (put_transaction i t d) uid = findById d uid"
  "findById (insert_transaction t d) uid = findById d uid"
  by (simp_all add: findById_def)

text \<open>The three ways a call of \<open>claimRewards\<close> goes.\<close>

lemma claimRewards_not_completed:
  "findOne_index (completed_session sid uid) (games d) = None \<Longrightarrow>
   claimRewards e sid uid d = (Inl SessionNotFoundOrNotCompleted, d)"
  by (simp add: claimRewards_def)

lemma claimRewards_claimed:
  "findOne_index (completed_session sid uid) (games d) = Some i \<Longrightarrow> claimed (games d ! i) \<Longrightarrow>
   claimRewards e sid uid d = (Inl RewardsAlreadyClaimed, d)"
  by (simp add: claimRewards_def)

text \<open>
  On a completed, unclaimed session of an existing user the game is stored as claimed and
  the user is credited and stored; then the save inside \<open>createGameReward\<close> is rejected
  and the call throws. No transaction is added.
\<close>

lemma claimRewards_unclaimed:
  assumes "findOne_index (completed_session sid uid) (games d) = Some i"
      and "\<not> claimed (games d ! i)"
      and "findById d uid = Some u"
  shows "claimRewards e sid uid d =
           (Inl ValidationError,
            put_user uid (addExperience (rd_experience (claim_data (games d ! i)))
                            (addCoins (rd_coins (claim_data (games d ! i))) u))
              (put_game i (claimed_game e (games d ! i)) d))"
  using assms
  by (simp add: claimRewards_def game_claimRewards_unclaimed credit_reward_def Let_def
      createGameReward_rejected del: claim_data_fields)

lemma claimRewards_second:
  assumes idx: "findOne_index (completed_session sid uid) (games d) = Some i"
      and fresh: "\<not> claimed (games d ! i)"
      and u: "findById d uid = Some u"
  shows "claimRewards eb sid uid (snd (claimRewards e sid uid d))
           = (Inl RewardsAlreadyClaimed, snd (claimRewards e sid uid d))"
proof -
  let ?d1 = "snd (claimRewards e sid uid d)"
  have g: "games ?d1 = (games d)[i := claimed_game e (games d ! i)]"
    by (simp add: claimRewards_unclaimed [OF idx fresh u])
  from idx have i: "i < length (games d)" and hit: "completed_session sid uid (games d ! i)"
    by (simp_all add: findOne_index_Some)
  have idx': "findOne_index (completed_session sid uid) (games ?d1) = Some i"
    unfolding g using idx hit by (intro findOne_index_update) simp_all
  have cl: "claimed (games ?d1 ! i)"
    unfolding g using i by simp
  show ?thesis by (rule claimRewards_claimed [OF idx' cl])
qed


lemma example_active_game_fields [simp]:
  "g_userId example_active_game = 0"
  "sessionId example_active_game = ''s1''"
  "totalNotes example_active_game = 100"
  "correctNotes example_active_game = 96"
  "accuracy example_active_game = 96"
  "maxCombo example_active_game = 50"
  "duration example_active_game = 0"
  "baseScore example_active_game = 5000"
  "comboBonus example_active_game = 2500"
  "accuracyBonus example_active_game = 2500"
  "speedBonus example_active_game = 0"
  "totalScore example_active_game = 10000"
  "rw_coins example_active_game = 10"
  "rw_experience example_active_game = 100"
  "bonusCoins example_active_game = 0"
  "claimed example_active_game = False"
  "achievements example_active_game = []"
  "g_isNew example_active_game = False"
  "totalScore_modified example_active_game = False"
  by (simp_all add: example_active_game_def)

lemma checkAchievements_example:
  "checkAchievements example_env
     (example_active_game\<lparr>session_status := SessionCompleted, endTime := Some 1700000000000\<rparr>)
     = unlock example_env FirstGame 50 100
         (example_active_game\<lparr>session_status := SessionCompleted, endTime := Some 1700000000000\<rparr>)"
  by (simp add: checkAchievements_def check_first_game_def check_perfect_combo_def
      check_accuracy_master_def check_speed_demon_def check_endurance_player_def
      has_achievement_def notesPerSecond_def unlock_def)

lemma example_session_fields [simp]:
  "sessionId example_session = ''s1''"
  "g_userId example_session = 0"
  "session_status example_session = SessionCompleted"
  "claimed example_session = False"
  "bonusCoins example_session = 0"
  "totalScore example_session = 10000"
  "rw_coins example_session = 10"
  "rw_experience example_session = 100"
  "achievements example_session =
     [\<lparr>a_type = FirstGame, a_unlockedAt = 1700000000000,
       a_reward = Some \<lparr>r_coins = Some 50, r_experience = Some 100\<rparr>\<rparr>]"
  by (simp_all add: example_session_def completeGame_def checkAchievements_example
      save_game_rewards unlock_def)

lemma example_store_session:
  "findOne_index (completed_session ''s1'' 0) (games example_store) = Some 0"
  "\<not> claimed (games example_store ! 0)"
  "findById example_store 0 = Some example_user"
  by (simp_all add: findById_def)

lemma example_claim_result:
  "claimRewards example_env ''s1'' 0 example_store =
     (Inl ValidationError,
      put_user 0 (addExperience 200 (addCoins 60 example_user))
        (put_game 0 (claimed_game example_env example_session) example_store))"
  by (simp add: claimRewards_unclaimed [OF example_store_session] achievement_coins_def
      achievement_experience_def or0_def)

lemma example_claimed_store_eq:
  "example_claimed_store =
     put_user 0 (addExperience 200 (addCoins 60 example_user))
       (put_game 0 (claimed_game example_env example_session) example_store)"
  by (simp add: example_claimed_store_def example_claim_result)

text \<open>
  C2, at the example store. The user claims the reward of the completed, unclaimed
  session \<open>s1\<close>, worth 60 coins, twice in a row. The first call stores the game as
  claimed and credits the wallet, from 5000 to 5060 coins; then the save inside
  \<open>createGameReward\<close> is rejected and the call throws. The second call fails with
  \<open>Rewards already claimed\<close> and changes nothing. After both calls the wallet has been
  credited once and the ledger holds no game reward transaction, not one. A claim for a
  session that is not completed fails with \<open>Game session not found or not completed\<close>
  and changes nothing.
\<close>

theorem claimRewards_credits_without_transaction:
  "fst (claimRewards example_env ''s1'' 0 example_store) = Inl ValidationError
   \<and> claimed (games example_claimed_store ! 0)
   \<and> map_option coins_available (findById example_store 0) = Some 5000
   \<and> map_option coins_available (findById example_claimed_store 0) = Some 5060
   \<and> game_reward_count example_store = 0
   \<and> game_reward_count example_claimed_store = 0
   \<and> claimRewards example_env ''s1'' 0 example_claimed_store
       = (Inl RewardsAlreadyClaimed, example_claimed_store)
   \<and> claimRewards example_env ''s1'' 0 example_active_store
       = (Inl SessionNotFoundOrNotCompleted, example_active_store)"
proof -
  have first: "fst (claimRewards example_env ''s1'' 0 example_store) = Inl ValidationError"
    by (simp add: example_claim_result)
  have cl: "claimed (games example_claimed_store ! 0)"
    by (simp add: example_claimed_store_eq)
  have w0: "map_option coins_available (findById example_store 0) = Some 5000"
    by (simp add: findById_def)
  have w1: "map_option coins_available (findById example_claimed_store 0) = Some 5060"
    by (simp add: example_claimed_store_eq findById_def)
  have c0: "game_reward_count example_store = 0"
    by (simp add: game_reward_count_def)
  have c1: "game_reward_count example_claimed_store = 0"
    by (simp add: example_claimed_store_eq game_reward_count_def)
  have second: "claimRewards example_env ''s1'' 0 example_claimed_store
                  = (Inl RewardsAlreadyClaimed, example_claimed_store)"
    unfolding example_claimed_store_def
    by (rule claimRewards_second [OF example_store_session])
  have none: "findOne_index (completed_session ''s1'' 0) (games example_active_store) = None"
    by (simp add: example_active_store_def example_active_game_def)
  have active: "claimRewards example_env ''s1'' 0 example_active_store
                  = (Inl SessionNotFoundOrNotCompleted, example_active_store)"
    by (rule claimRewards_not_completed [OF none])
  from first cl w0 w1 c0 c1 second active show ?thesis by simp
qed




section \<open>Risk assessment and the withdrawal gate\<close>

lemma raw_risk_bounds: "0 \<le> raw_risk e u uid txs td" "raw_risk e u uid txs td \<le> 115"
  by (simp_all add: raw_risk_def)

lemma monitor_fields:
  assumes "findById d uid = Some u"
  shows "ra_riskScore (monitorSuspiciousActivity e d uid td) = min 100 (raw_risk e u uid (transactions d) td)"
    and "requiresReview (monitorSuspiciousActivity e d uid td) = (raw_risk e u uid (transactions d) td > 70)"
    and "requiresApproval (monitorSuspiciousActivity e d uid td) = (raw_risk e u uid (transactions d) td > 50)"
    and "ra_flags (monitorSuspiciousActivity e d uid td) = risk_flags e u uid (transactions d) td"
  using assms by (simp_all add: monitorSuspiciousActivity_def)

lemma new_account_review:
  assumes "new_account_activity e u td"
  shows "raw_risk e u uid txs td \<ge> 40"
    and "raw_risk e u uid txs td > 70 \<longleftrightarrow>
           (rapid_withdrawals e uid txs \<and> unusual_amount uid txs td)
           \<or> (rapid_withdrawals e uid txs \<and> different_location u td)
           \<or> (unusual_amount uid txs td \<and> different_location u td)"
  using assms by (auto simp add: raw_risk_def)

text \<open>The user as \<open>authenticateToken\<close> stores it, and the middleware on an active account.\<close>

lemma login_update_fields [simp]:
  "coins_available (login_update header u) = coins_available u"
  "coins_pending (login_update header u) = coins_pending u"
  "coins_total (login_update header u) = coins_total u"
  "kyc (login_update header u) = kyc u"
  "u_status (login_update header u) = u_status u"
  "u_createdAt (login_update header u) = u_createdAt u"
  "loginHistory (login_update header u) =
     \<lparr>login_location = request_location header ''Unknown''\<rparr> # take 9 (loginHistory u)"
  by (simp_all add: login_update_def)

lemma authenticateToken_active:
  assumes "findById d uid = Some u" and "u_status u = AccountActive" and "\<not> is_locked e u"
  shows "authenticateToken e header uid d = Inr (put_user uid (login_update header u) d)"
  using assms by (simp add: authenticateToken_def)

text \<open>
  At the route, a request that carries a location header never counts as coming from
  another location: the middleware has just made that header the location of the last
  login.
\<close>

lemma header_location_never_differs:
  "truthy header \<Longrightarrow>
   \<not> different_location (login_update header u)
       \<lparr>td_type = ty, td_amount = a, td_location = request_location header ip\<rparr>"
  by (simp add: different_location_def request_location_def)

lemma route_withdraw_gate:
  assumes u: "findById d uid = Some u" and act: "u_status u = AccountActive"
      and nl: "\<not> is_locked e u" and k: "kyc u = KycVerified"
      and m: "m \<in> set [BankTransfer, Crypto, Paypal]"
      and a: "minWithdrawal e \<le> a" "0 < a" "a < 10000"
      and bal: "a \<le> getUserBalance uid (transactions d)"
  shows "route_withdraw e bank_reply uid a (Some m) (Some ai) header ip d =
           (let d1 = put_user uid (login_update header u) d;
                ra = monitorSuspiciousActivity e d1 uid
                       \<lparr>td_type = Withdrawal, td_amount = a,
                        td_location = request_location header ip\<rparr>
            in if requiresReview ra then (HeldForReview (ra_flags ra), d1)
               else (case processWithdrawal e bank_reply uid a m ai d1 of
                       (Inl err, d') \<Rightarrow> (ServerError err, d')
                     | (Inr r, d') \<Rightarrow> (Submitted r, d')))"
proof -
  let ?d1 = "put_user uid (login_update header u) d"
  have auth: "authenticateToken e header uid d = Inr ?d1"
    by (rule authenticateToken_active [OF u act nl])
  have u1: "findById ?d1 uid = Some (login_update header u)"
    by (rule findById_put_user [OF u])
  have kc: "verifyKYCForTransaction ?d1 uid a =
              Inr \<lparr>kc_allowed = True, kc_currentLevel = TierEnhanced,
                   kc_requiredLevel = requiredLevel a\<rparr>"
    using k a by (simp add: verifyKYCForTransaction_def u1 Let_def compareKYCLevels_def
        requiredLevel_def)
  have handler: "withdraw_handler e bank_reply uid a (Some m) (Some ai) header ip ?d1 =
           (let ra = monitorSuspiciousActivity e ?d1 uid
                       \<lparr>td_type = Withdrawal, td_amount = a,
                        td_location = request_location header ip\<rparr>
            in if requiresReview ra then (HeldForReview (ra_flags ra), ?d1)
               else (case processWithdrawal e bank_reply uid a m ai ?d1 of
                       (Inl err, d') \<Rightarrow> (ServerError err, d')
                     | (Inr r, d') \<Rightarrow> (Submitted r, d')))"
    using m a bal by (simp add: withdraw_handler_def kc Let_def)
  show ?thesis
    using k by (simp add: route_withdraw_def auth u1 handler Let_def)
qed

text \<open>
  C8, as the code has it. For an existing user the risk score is the sum, capped at 100,
  of 30 for more than 3 withdrawals in the last 24 hours, 25 for an amount above 5 times
  the user's average for the type, 40 for an account younger than 7 days with an amount
  above 500, and 20 for a location other than that of the last login; it lies between 0
  and 100. \<open>requiresReview\<close> holds when the uncapped sum exceeds 70 and
  \<open>requiresApproval\<close> when it exceeds 50. A request of more than 500 units from an account
  younger than 7 days scores at least 40, and it requires review exactly when at least
  two of the other three indicators fire as well. The withdrawal route assesses the
  request on the store as \<open>authenticateToken\<close> left it; once its checks of amount, method,
  balance and KYC have passed, it holds the request when review is required, and hands
  it to \<open>processWithdrawal\<close> otherwise.
\<close>

theorem risk_assessment_scores:
  "(findById d uid = Some u \<longrightarrow>
     ra_riskScore (monitorSuspiciousActivity e d uid td)
       = min 100 ((if length (recentWithdrawals e uid (transactions d)) > 3 then 30 else 0)
                  + (if unusual_amount uid (transactions d) td then 25 else 0)
                  + (if accountAge e u < 7 \<and> td_amount td > 500 then 40 else 0)
                  + (if different_location u td then 20 else 0))
     \<and> 0 \<le> ra_riskScore (monitorSuspiciousActivity e d uid td)
     \<and> ra_riskScore (monitorSuspiciousActivity e d uid td) \<le> 100
     \<and> (requiresReview (monitorSuspiciousActivity e d uid td)
          \<longleftrightarrow> raw_risk e u uid (transactions d) td > 70)
     \<and> (requiresApproval (monitorSuspiciousActivity e d uid td)
          \<longleftrightarrow> raw_risk e u uid (transactions d) td > 50)
     \<and> (accountAge e u < 7 \<and> td_amount td > 500 \<longrightarrow>
          ra_riskScore (monitorSuspiciousActivity e d uid td) \<ge> 40
          \<and> (requiresReview (monitorSuspiciousActivity e d uid td) \<longleftrightarrow>
               (rapid_withdrawals e uid (transactions d) \<and> unusual_amount uid (transactions d) td)
               \<or> (rapid_withdrawals e uid (transactions d) \<and> different_location u td)
               \<or> (unusual_amount uid (transactions d) td \<and> different_location u td))))
   \<and> (findById dr uid = Some ur \<and> u_status ur = AccountActive \<and> \<not> is_locked e ur
        \<and> kyc ur = KycVerified \<and> m \<in> set [BankTransfer, Crypto, Paypal]
        \<and> minWithdrawal e \<le> a \<and> 0 < a \<and> a < 10000
        \<and> a \<le> getUserBalance uid (transactions dr) \<longrightarrow>
        route_withdraw e bank_reply uid a (Some m) (Some ai) header ip dr =
          (let d1 = put_user uid (login_update header ur) dr;
               ra = monitorSuspiciousActivity e d1 uid
                      \<lparr>td_type = Withdrawal, td_amount = a,
                       td_location = request_location header ip\<rparr>
           in if requiresReview ra then (HeldForReview (ra_flags ra), d1)
              else (case processWithdrawal e bank_reply uid a m ai d1 of
                      (Inl err, d') \<Rightarrow> (ServerError err, d')
                    | (Inr r, d') \<Rightarrow> (Submitted r, d'))))"
proof (intro conjI impI)
  assume u: "findById d uid = Some u"
  show "ra_riskScore (monitorSuspiciousActivity e d uid td)
       = min 100 ((if length (recentWithdrawals e uid (transactions d)) > 3 then 30 else 0)
                  + (if unusual_amount uid (transactions d) td then 25 else 0)
                  + (if accountAge e u < 7 \<and> td_amount td > 500 then 40 else 0)
                  + (if different_location u td then 20 else 0))"
    by (simp add: monitor_fields(1) [OF u] raw_risk_def rapid_withdrawals_def
        new_account_activity_def)
  show "0 \<le> ra_riskScore (monitorSuspiciousActivity e d uid td)"
    using raw_risk_bounds(1) [of e u uid "transactions d" td]
    by (simp add: monitor_fields(1) [OF u])
  show "ra_riskScore (monitorSuspiciousActivity e d uid td) \<le> 100"
    by (simp add: monitor_fields(1) [OF u])
  show "requiresReview (monitorSuspiciousActivity e d uid td)
          \<longleftrightarrow> raw_risk e u uid (transactions d) td > 70"
    by (simp add: monitor_fields(2) [OF u])
  show "requiresApproval (monitorSuspiciousActivity e d uid td)
          \<longleftrightarrow> raw_risk e u uid (transactions d) td > 50"
    by (simp add: monitor_fields(3) [OF u])
next
  assume u: "findById d uid = Some u"
    and "accountAge e u < 7 \<and> td_amount td > 500"
  then have n: "new_account_activity e u td"
    by (simp add: new_account_activity_def)
  from new_account_review(1) [OF n, of uid "transactions d"]
  show "ra_riskScore (monitorSuspiciousActivity e d uid td) \<ge> 40"
    by (simp add: monitor_fields(1) [OF u])
  from new_account_review(2) [OF n, of uid "transactions d"]
  show "requiresReview (monitorSuspiciousActivity e d uid td) \<longleftrightarrow>
               (rapid_withdrawals e uid (transactions d) \<and> unusual_amount uid (transactions d) td)
               \<or> (rapid_withdrawals e uid (transactions d) \<and> different_location u td)
               \<or> (unusual_amount uid (transactions d) td \<and> different_location u td)"
    by (simp add: monitor_fields(2) [OF u])
next
  assume h: "findById dr uid = Some ur \<and> u_status ur = AccountActive \<and> \<not> is_locked e ur
        \<and> kyc ur = KycVerified \<and> m \<in> set [BankTransfer, Crypto, Paypal]
        \<and> minWithdrawal e \<le> a \<and> 0 < a \<and> a < 10000
        \<and> a \<le> getUserBalance uid (transactions dr)"
  then show "route_withdraw e bank_reply uid a (Some m) (Some ai) header ip dr =
          (let d1 = put_user uid (login_update header ur) dr;
               ra = monitorSuspiciousActivity e d1 uid
                      \<lparr>td_type = Withdrawal, td_amount = a,
                       td_location = request_location header ip\<rparr>
           in if requiresReview ra then (HeldForReview (ra_flags ra), d1)
              else (case processWithdrawal e bank_reply uid a m ai d1 of
                      (Inl err, d') \<Rightarrow> (ServerError err, d')
                    | (Inr r, d') \<Rightarrow> (Submitted r, d')))"
    by (intro route_withdraw_gate) simp_all
qed

text \<open>The two example requests, on the stores as the middleware leaves them.\<close>

lemma example_quiet_store_fields [simp]:
  "findById example_quiet_store 0 = Some (login_update (Some ''SG'') example_user)"
  "transactions example_quiet_store = [example_bonus]"
  by (simp_all add: example_quiet_store_def findById_def)

lemma example_risk:
  "accountAge example_env example_user = 3"
  "accountAge example_env (login_update header example_user) = 3"
  "rapid_withdrawals example_env 0 [example_bonus] = False"
  "unusual_amount 0 [example_bonus] example_request = False"
  "new_account_activity example_env (login_update header example_user) example_request = True"
  "different_location (login_update (Some ''SG'') example_user) example_request = False"
  by (simp_all add: accountAge_def rapid_withdrawals_def recentWithdrawals_def
      unusual_amount_def userAvgTransaction_def new_account_activity_def
      different_location_def truthy_def request_location_def example_request_def)

lemma example_raw_risk:
  "raw_risk example_env (login_update (Some ''SG'') example_user) 0 [example_bonus]
     example_request = 40"
  by (simp add: raw_risk_def example_risk)

lemma example_busy_store_fields [simp]:
  "users example_busy_store = [example_user]"
  "transactions example_busy_store =
     [example_bonus, example_withdrawal, stored_withdrawal ''WD2'', stored_withdrawal ''WD3'',
      stored_withdrawal ''WD4'']"
  by (simp_all add: example_busy_store_def)

lemma example_held_store_fields [simp]:
  "findById example_held_store 0 = Some (login_update None example_user)"
  "transactions example_held_store =
     [example_bonus, example_withdrawal, stored_withdrawal ''WD2'', stored_withdrawal ''WD3'',
      stored_withdrawal ''WD4'']"
  by (simp_all add: example_held_store_def findById_def)

lemma example_busy_risk:
  "rapid_withdrawals example_env 0
     [example_bonus, example_withdrawal, stored_withdrawal ''WD2'', stored_withdrawal ''WD3'',
      stored_withdrawal ''WD4''] = True"
  "unusual_amount 0
     [example_bonus, example_withdrawal, stored_withdrawal ''WD2'', stored_withdrawal ''WD3'',
      stored_withdrawal ''WD4''] example_remote_request = False"
  "new_account_activity example_env (login_update header example_user) example_remote_request
     = True"
  "different_location (login_update None example_user) example_remote_request = True"
  by (simp_all add: accountAge_def rapid_withdrawals_def recentWithdrawals_def
      unusual_amount_def userAvgTransaction_def new_account_activity_def
      different_location_def truthy_def request_location_def example_remote_request_def)

lemma example_busy_balance:
  "getUserBalance 0
     [example_bonus, example_withdrawal, stored_withdrawal ''WD2'', stored_withdrawal ''WD3'',
      stored_withdrawal ''WD4''] = 5000"
  by (simp add: getUserBalance_def balance_raw completed_credits_def completed_debits_def
      credit_types_def debit_types_def)

text \<open>
  A request of 2000 units from the three-day-old example account, its fifth withdrawal
  request of the day, sent without a location header: 30 for the rapid withdrawals, 40
  for the new account and 20 for the location, 90 in all. The route holds it.
\<close>

theorem risk_assessment_scores_witness:
  "accountAge example_env (login_update None example_user) = 3
   \<and> td_amount example_remote_request = 2000
   \<and> ra_riskScore (monitorSuspiciousActivity example_env example_held_store 0
                     example_remote_request) = 90
   \<and> requiresReview (monitorSuspiciousActivity example_env example_held_store 0
                       example_remote_request)
   \<and> requiresApproval (monitorSuspiciousActivity example_env example_held_store 0
                         example_remote_request)
   \<and> route_withdraw example_env (GwSuccess ''tr_1'') 0 2000 (Some BankTransfer)
         (Some \<lparr>ai_address = None\<rparr>) None ''10.0.0.1'' example_busy_store
       = (HeldForReview [''Multiple withdrawals in 24h'', ''Large transaction from new account'',
                         ''Transaction from different location''],
          example_held_store)"
proof -
  let ?u = "login_update None example_user"
  let ?txs = "[example_bonus, example_withdrawal, stored_withdrawal ''WD2'',
               stored_withdrawal ''WD3'', stored_withdrawal ''WD4'']"
  have u0: "findById example_busy_store 0 = Some example_user"
    by (simp add: findById_def)
  have u: "findById example_held_store 0 = Some ?u"
    by simp
  have nl: "\<not> is_locked example_env example_user"
    by (simp add: is_locked_def)
  have raw: "raw_risk example_env ?u 0 ?txs example_remote_request = 90"
    by (simp add: raw_risk_def example_busy_risk)
  have flags: "risk_flags example_env ?u 0 ?txs example_remote_request
               = [''Multiple withdrawals in 24h'', ''Large transaction from new account'',
                  ''Transaction from different location'']"
    by (simp add: risk_flags_def example_busy_risk)
  have req: "\<lparr>td_type = Withdrawal, td_amount = 2000,
              td_location = request_location None ''10.0.0.1''\<rparr> = example_remote_request"
    by (simp add: example_remote_request_def request_location_def truthy_def)
  have fl: "ra_flags (monitorSuspiciousActivity example_env example_held_store 0
                        example_remote_request)
            = [''Multiple withdrawals in 24h'', ''Large transaction from new account'',
               ''Transaction from different location'']"
    by (simp add: monitor_fields(4) [OF u] flags)
  have age: "accountAge example_env ?u = 3"
    by (simp add: example_risk)
  have amt: "td_amount example_remote_request = 2000"
    by (simp add: example_remote_request_def)
  have rapid: "length (recentWithdrawals example_env 0 ?txs) > 3"
    using example_busy_risk(1) by (simp add: rapid_withdrawals_def)
  have held: "put_user 0 ?u example_busy_store = example_held_store"
    by (simp add: example_held_store_def)
  show ?thesis
    using risk_assessment_scores
      [where d = example_held_store and uid = 0 and u = ?u and e = example_env
         and td = example_remote_request and dr = example_busy_store and ur = example_user
         and m = BankTransfer and a = 2000
         and bank_reply = "GwSuccess ''tr_1''" and ai = "\<lparr>ai_address = None\<rparr>"
         and header = None and ip = "''10.0.0.1''"]
      u0 u nl raw req fl age amt rapid held example_busy_balance example_busy_risk
    by (simp add: Let_def)
qed

text \<open>
  A request of 2000 units from the three-day-old example account, with no earlier
  withdrawal and with the location header of the last login, scores 40: review is not
  required and the route does not hold the request. It hands it to \<open>processWithdrawal\<close>,
  whose exception it answers.
\<close>

theorem new_account_not_held_counterexample:
  "accountAge example_env (login_update (Some ''SG'') example_user) = 3
   \<and> td_amount example_request = 2000
   \<and> ra_riskScore (monitorSuspiciousActivity example_env example_quiet_store 0
                     example_request) = 40
   \<and> \<not> requiresReview (monitorSuspiciousActivity example_env example_quiet_store 0
                         example_request)
   \<and> route_withdraw example_env (GwSuccess ''tr_1'') 0 2000 (Some BankTransfer)
         (Some \<lparr>ai_address = None\<rparr>) (Some ''SG'') ''10.0.0.1'' example_store
       = (ServerError ValidationError, example_quiet_store)"
proof -
  let ?u = "login_update (Some ''SG'') example_user"
  have u0: "findById example_store 0 = Some example_user"
    by (simp add: findById_def)
  have u: "findById example_quiet_store 0 = Some ?u"
    by simp
  have nl: "\<not> is_locked example_env example_user"
    by (simp add: is_locked_def)
  have req: "\<lparr>td_type = Withdrawal, td_amount = 2000,
              td_location = request_location (Some ''SG'') ''10.0.0.1''\<rparr> = example_request"
    by (simp add: example_request_def request_location_def truthy_def)
  have nr: "\<not> requiresReview (monitorSuspiciousActivity example_env example_quiet_store 0
                               example_request)"
    by (simp add: monitor_fields(2) [OF u] example_raw_risk)
  have sc: "ra_riskScore (monitorSuspiciousActivity example_env example_quiet_store 0
                            example_request) = 40"
    by (simp add: monitor_fields(1) [OF u] example_raw_risk)
  have cw: "canWithdraw example_env 2000 ?u"
    by (simp add: canWithdraw_def)
  have pw: "processWithdrawal example_env (GwSuccess ''tr_1'') 0 2000 BankTransfer
              \<lparr>ai_address = None\<rparr> example_quiet_store
            = (Inl ValidationError, example_quiet_store)"
    by (rule processWithdrawal_rejected [OF u cw]) simp
  have quiet: "put_user 0 ?u example_store = example_quiet_store"
    by (simp add: example_quiet_store_def)
  have route: "route_withdraw example_env (GwSuccess ''tr_1'') 0 2000 (Some BankTransfer)
         (Some \<lparr>ai_address = None\<rparr>) (Some ''SG'') ''10.0.0.1'' example_store
       = (ServerError ValidationError, example_quiet_store)"
    using nr by (simp add: route_withdraw_gate [OF u0 _ nl] quiet req Let_def pw)
  show ?thesis
    using sc nr route by (simp add: example_risk example_request_def)
qed

end
